theory Spec2Isabelle
  imports Complex_Main
begin

section \<open>Lid-driven cavity solver: data model\<close>

text \<open>
  The solver of \<^verbatim>\<open>DrivenCavity.template-to-students.UPDATED.cpp\<close> works on
  \<^verbatim>\<open>double\<close> values; they are modelled as \<^typ>\<open>real\<close>, that is in exact arithmetic
  (no rounding, no NaN, no infinities; the convergence test is modelled a second time on
  values that include them). Index variables and the array sizes are natural
  numbers; the subtractions \<^verbatim>\<open>imax-1\<close>, \<^verbatim>\<open>imax-2\<close>, \<^verbatim>\<open>imax-3\<close> of the source agree with
  truncating subtraction as soon as the grid has at least three points per direction.

  The compile-time inputs of the source (the macros \<^verbatim>\<open>imax\<close>, \<^verbatim>\<open>jmax\<close> and the
  constants of the section "User sets inputs here") are the fields of one record.
\<close>

record config =
  imax :: nat
  jmax :: nat
  imms :: int
  isgs :: int
  cfl :: real
  Cx :: real
  Cy :: real
  toler :: real
  rkappa :: real
  Re_num :: real
  pinf :: real
  uinf :: real
  rho :: real
  xmin :: real
  xmax :: real
  ymin :: real
  ymax :: real

text \<open>The values the source file ships with.\<close>

definition shipped :: config where
  "shipped = \<lparr> imax = 251, jmax = 251, imms = 0, isgs = 1, cfl = 0.8, Cx = 0.01, Cy = 0.01,
     toler = 1 / 10 ^ 10, rkappa = 0.1, Re_num = 10, pinf = 0.801333844662, uinf = 1,
     rho = 1, xmin = 0, xmax = 0.05, ymin = 0, ymax = 0.05 \<rparr>"

text \<open>\<^verbatim>\<open>set_derived_inputs\<close>: the derived quantities, each a function of the inputs.\<close>

definition rhoinv :: "config \<Rightarrow> real" where
  "rhoinv cfg = 1 / rho cfg"

definition rlength :: "config \<Rightarrow> real" where
  "rlength cfg = xmax cfg - xmin cfg"

definition rmu :: "config \<Rightarrow> real" where
  "rmu cfg = (rho cfg * uinf cfg * rlength cfg) / Re_num cfg"

definition vel2ref :: "config \<Rightarrow> real" where
  "vel2ref cfg = uinf cfg * uinf cfg"

definition dx :: "config \<Rightarrow> real" where
  "dx cfg = (xmax cfg - xmin cfg) / real (imax cfg - 1)"

definition dy :: "config \<Rightarrow> real" where
  "dy cfg = (ymax cfg - ymin cfg) / real (jmax cfg - 1)"

definition rpi :: real where
  "rpi = pi"

text \<open>
  \<^verbatim>\<open>Array3\<close> and \<^verbatim>\<open>Array2\<close> store a dense block and address it by
  \<^verbatim>\<open>data[i*jdim*kdim + j*kdim + k]\<close> (resp. \<^verbatim>\<open>data[i*jdim + j]\<close>). On indices inside
  the block this addressing is one-to-one, so a field is modelled as a function of the
  index tuple and a store to one index leaves every other index alone.
\<close>

type_synonym Array3 = "nat \<times> nat \<times> nat \<Rightarrow> real"
type_synonym Array2 = "nat \<times> nat \<Rightarrow> real"

definition Array3_offset :: "nat \<Rightarrow> nat \<Rightarrow> nat \<Rightarrow> nat \<Rightarrow> nat \<Rightarrow> nat" where
  "Array3_offset jdim kdim i j k = i * jdim * kdim + j * kdim + k"

definition Array2_offset :: "nat \<Rightarrow> nat \<Rightarrow> nat \<Rightarrow> nat" where
  "Array2_offset jdim i j = i * jdim + j"

definition pow2 :: "real \<Rightarrow> real" where
  "pow2 x = x * x"

subsection \<open>Manufactured solution\<close>

definition phi0 :: "nat \<Rightarrow> real" where "phi0 k = [0.25, 0.3, 0.2] ! k"
definition phix :: "nat \<Rightarrow> real" where "phix k = [0.5, 0.15, 1 / 6] ! k"
definition phiy :: "nat \<Rightarrow> real" where "phiy k = [0.4, 0.2, 0.25] ! k"
definition phixy :: "nat \<Rightarrow> real" where "phixy k = [1 / 3, 0.25, 0.1] ! k"
definition apx :: "nat \<Rightarrow> real" where "apx k = [0.5, 1 / 3, 7 / 17] ! k"
definition apy :: "nat \<Rightarrow> real" where "apy k = [0.2, 0.25, 1 / 6] ! k"
definition apxy :: "nat \<Rightarrow> real" where "apxy k = [2 / 7, 0.4, 1 / 3] ! k"
definition fsinx :: "nat \<Rightarrow> real" where "fsinx k = [0, 1, 0] ! k"
definition fsiny :: "nat \<Rightarrow> real" where "fsiny k = [1, 0, 0] ! k"
definition fsinxy :: "nat \<Rightarrow> real" where "fsinxy k = [1, 1, 0] ! k"

definition umms :: "config \<Rightarrow> real \<Rightarrow> real \<Rightarrow> nat \<Rightarrow> real" where
  "umms cfg x y k =
    (let argx = apx k * rpi * x / rlength cfg;
         argy = apy k * rpi * y / rlength cfg;
         argxy = apxy k * rpi * x * y / rlength cfg / rlength cfg;
         termx = phix k * (fsinx k * sin argx + (1 - fsinx k) * cos argx);
         termy = phiy k * (fsiny k * sin argy + (1 - fsiny k) * cos argy);
         termxy = phixy k * (fsinxy k * sin argxy + (1 - fsinxy k) * cos argxy)
     in phi0 k + termx + termy + termxy)"

subsection \<open>Pressure rescaling\<close>

definition iref :: "config \<Rightarrow> nat" where
  "iref cfg = (imax cfg - 1) div 2"

definition jref :: "config \<Rightarrow> nat" where
  "jref cfg = (jmax cfg - 1) div 2"

definition deltap :: "config \<Rightarrow> Array3 \<Rightarrow> real" where
  "deltap cfg u =
    (if imms cfg = 1 then
       (let x = (xmax cfg - xmin cfg) * real (iref cfg) / real (imax cfg - 1);
            y = (ymax cfg - ymin cfg) * real (jref cfg) / real (jmax cfg - 1)
        in u (iref cfg, jref cfg, 0) - umms cfg x y 0)
     else u (iref cfg, jref cfg, 0) - pinf cfg)"

definition pressure_rescaling :: "config \<Rightarrow> Array3 \<Rightarrow> Array3" where
  "pressure_rescaling cfg u =
    (let d = deltap cfg u
     in fold (\<lambda>i. fold (\<lambda>j u. u((i, j, 0) := u (i, j, 0) - d)) [0..<jmax cfg])
          [0..<imax cfg] u)"

subsection \<open>Boundary conditions\<close>

text \<open>
  \<^verbatim>\<open>bndry\<close> runs two loops: the first over every \<open>j\<close> of the left and right walls, the
  second over \<open>i = 1 .. imax-2\<close> of the bottom and top walls. The statements of each
  loop body are kept in the order of the source.
\<close>

definition bndry_side_body :: "config \<Rightarrow> nat \<Rightarrow> Array3 \<Rightarrow> Array3" where
  "bndry_side_body cfg j u =
    (let u = u((0, j, 1) := 0);
         u = u((0, j, 2) := 0);
         u = u((imax cfg - 1, j, 1) := 0);
         u = u((imax cfg - 1, j, 2) := 0);
         u = u((imax cfg - 1, j, 0) := 2 * u (imax cfg - 2, j, 0) - u (imax cfg - 3, j, 0));
         u = u((0, j, 0) := 2 * u (1, j, 0) - u (2, j, 0))
     in u)"

definition bndry_lid_body :: "config \<Rightarrow> nat \<Rightarrow> Array3 \<Rightarrow> Array3" where
  "bndry_lid_body cfg i u =
    (let u = u((i, 0, 1) := 0);
         u = u((i, 0, 2) := 0);
         u = u((i, 0, 0) := 2 * u (i, 1, 0) - u (i, 2, 0));
         u = u((i, jmax cfg - 1, 1) := uinf cfg);
         u = u((i, jmax cfg - 1, 2) := 0);
         u = u((i, jmax cfg - 1, 0) := 2 * u (i, jmax cfg - 2, 0) - u (i, jmax cfg - 3, 0))
     in u)"

definition bndry_side_pass :: "config \<Rightarrow> Array3 \<Rightarrow> Array3" where
  "bndry_side_pass cfg u = fold (bndry_side_body cfg) [0..<jmax cfg] u"

definition bndry_lid_pass :: "config \<Rightarrow> Array3 \<Rightarrow> Array3" where
  "bndry_lid_pass cfg u = fold (bndry_lid_body cfg) [1..<imax cfg - 1] u"

definition bndry :: "config \<Rightarrow> Array3 \<Rightarrow> Array3" where
  "bndry cfg u = bndry_lid_pass cfg (bndry_side_pass cfg u)"

text \<open>
  \<^verbatim>\<open>bndrymms\<close>: the side walls over \<open>j = 1 .. jmax-2\<close>, then the bottom and top walls
  over every \<open>i\<close>.
\<close>

definition bndrymms_side_body :: "config \<Rightarrow> nat \<Rightarrow> Array3 \<Rightarrow> Array3" where
  "bndrymms_side_body cfg j u =
    (let y = (ymax cfg - ymin cfg) * real j / real (jmax cfg - 1);
         x = xmin cfg;
         u = u((0, j, 0) := umms cfg x y 0);
         u = u((0, j, 1) := umms cfg x y 1);
         u = u((0, j, 2) := umms cfg x y 2);
         u = u((0, j, 0) := 2 * u (1, j, 0) - u (2, j, 0));
         x = xmax cfg;
         u = u((imax cfg - 1, j, 0) := umms cfg x y 0);
         u = u((imax cfg - 1, j, 1) := umms cfg x y 1);
         u = u((imax cfg - 1, j, 2) := umms cfg x y 2);
         u = u((imax cfg - 1, j, 0) := 2 * u (imax cfg - 2, j, 0) - u (imax cfg - 3, j, 0))
     in u)"

definition bndrymms_lid_body :: "config \<Rightarrow> nat \<Rightarrow> Array3 \<Rightarrow> Array3" where
  "bndrymms_lid_body cfg i u =
    (let x = (xmax cfg - xmin cfg) * real i / real (imax cfg - 1);
         y = ymin cfg;
         u = u((i, 0, 0) := umms cfg x y 0);
         u = u((i, 0, 1) := umms cfg x y 1);
         u = u((i, 0, 2) := umms cfg x y 2);
         u = u((i, 0, 0) := 2 * u (i, 1, 0) - u (i, 2, 0));
         y = ymax cfg;
         u = u((i, jmax cfg - 1, 0) := umms cfg x y 0);
         u = u((i, jmax cfg - 1, 1) := umms cfg x y 1);
         u = u((i, jmax cfg - 1, 2) := umms cfg x y 2);
         u = u((i, jmax cfg - 1, 0) := 2 * u (i, jmax cfg - 2, 0) - u (i, jmax cfg - 3, 0))
     in u)"

definition bndrymms_side_pass :: "config \<Rightarrow> Array3 \<Rightarrow> Array3" where
  "bndrymms_side_pass cfg u = fold (bndrymms_side_body cfg) [1..<jmax cfg - 1] u"

definition bndrymms_lid_pass :: "config \<Rightarrow> Array3 \<Rightarrow> Array3" where
  "bndrymms_lid_pass cfg u = fold (bndrymms_lid_body cfg) [0..<imax cfg] u"

definition bndrymms :: "config \<Rightarrow> Array3 \<Rightarrow> Array3" where
  "bndrymms cfg u = bndrymms_lid_pass cfg (bndrymms_side_pass cfg u)"

text \<open>
  The cells a boundary applier may write: the three components of the nodes on the four
  edges of the grid.
\<close>

definition wall_cell :: "config \<Rightarrow> nat \<times> nat \<times> nat \<Rightarrow> bool" where
  "wall_cell cfg p = (case p of (i, j, k) \<Rightarrow>
     k < 3 \<and> i < imax cfg \<and> j < jmax cfg \<and>
     (i = 0 \<or> i = imax cfg - 1 \<or> j = 0 \<or> j = jmax cfg - 1))"

subsection \<open>Time step\<close>

text \<open>
  \<^verbatim>\<open>compute_time_step\<close>. The two lines that set \<^verbatim>\<open>uvel2\<close> and \<^verbatim>\<open>beta2\<close>, and the lines
  that set \<^verbatim>\<open>dtconv\<close> and \<^verbatim>\<open>dtvisc\<close>, are named so that statements can refer to these
  local variables; the loop body assigns \<^verbatim>\<open>dtmin\<close> and stores it in \<^verbatim>\<open>dt(i,j)\<close>.
\<close>

definition compute_time_step_beta2 :: "config \<Rightarrow> Array3 \<Rightarrow> nat \<Rightarrow> nat \<Rightarrow> real" where
  "compute_time_step_beta2 cfg u i j =
    (let uvel2 = u (i, j, 1) * u (i, j, 1) + u (i, j, 2) * u (i, j, 2)
     in max uvel2 (rkappa cfg * uinf cfg))"

definition dtconv :: "config \<Rightarrow> Array3 \<Rightarrow> nat \<Rightarrow> nat \<Rightarrow> real" where
  "dtconv cfg u i j =
    (let beta2 = compute_time_step_beta2 cfg u i j;
         lambda_x = 0.5 * (\<bar>u (i, j, 1)\<bar> + sqrt (pow2 (u (i, j, 1)) + 4 * beta2));
         lambda_y = 0.5 * (\<bar>u (i, j, 2)\<bar> + sqrt (pow2 (u (i, j, 2)) + 4 * beta2));
         lambda_max = (if lambda_x > lambda_y then lambda_x else lambda_y)
     in min (dx cfg) (dy cfg) / lambda_max)"

definition dtvisc :: "config \<Rightarrow> real" where
  "dtvisc cfg = (dx cfg * dy cfg) / (4 * rmu cfg * rhoinv cfg)"

definition compute_time_step_body ::
  "config \<Rightarrow> Array3 \<Rightarrow> nat \<Rightarrow> nat \<Rightarrow> Array2 \<times> real \<Rightarrow> Array2 \<times> real" where
  "compute_time_step_body cfg u i j s =
    (case s of (dt, dtmin) \<Rightarrow>
      (let dtmin = cfl cfg * min (dtconv cfg u i j) (dtvisc cfg)
       in (dt((i, j) := dtmin), dtmin)))"

definition compute_time_step :: "config \<Rightarrow> Array3 \<Rightarrow> Array2 \<Rightarrow> real \<Rightarrow> Array2 \<times> real" where
  "compute_time_step cfg u dt dtmin =
    fold (\<lambda>i. fold (\<lambda>j. compute_time_step_body cfg u i j) [1..<jmax cfg - 1])
      [1..<imax cfg - 1] (dt, dtmin)"

subsection \<open>Artificial viscosity\<close>

text \<open>
  \<^verbatim>\<open>Compute_Artificial_Viscosity\<close>: the stencil loop over \<open>j, i = 2 .. max-3\<close>, then the two
  extrapolation loop nests over \<^verbatim>\<open>sides = {1, imax-2}\<close> and \<^verbatim>\<open>top_bottom = {1, jmax-2}\<close>.
  Every branch and every store is kept as the source has it.
\<close>

definition cav_stencil_body ::
  "config \<Rightarrow> Array3 \<Rightarrow> nat \<Rightarrow> nat \<Rightarrow> Array2 \<times> Array2 \<Rightarrow> Array2 \<times> Array2" where
  "cav_stencil_body cfg u j i s =
    (case s of (viscx, viscy) \<Rightarrow>
      (let uvel2 = pow2 (u (i, j, 1)) + pow2 (u (i, j, 2));
           beta2 = max uvel2 (rkappa cfg * uinf cfg);
           lambda_x = 0.5 * (\<bar>u (i, j, 1)\<bar> + sqrt (uvel2 + 4 * beta2));
           lambda_y = 0.5 * (\<bar>u (i, j, 2)\<bar> + sqrt (uvel2 + 4 * beta2));
           d4pdx4 = (u (i + 2, j, 0) - 4 * u (i + 1, j, 0) + 6 * u (i, j, 0)
                      - 4 * u (i - 1, j, 0) + u (i - 2, j, 0)) / dx cfg;
           d4pdy4 = (u (i, j + 2, 0) - 4 * u (i, j + 1, 0) + 6 * u (i, j, 0)
                      - 4 * u (i, j - 1, 0) + u (i, j - 2, 0)) / dy cfg;
           viscx = viscx((i, j) := (- \<bar>lambda_x\<bar> * Cx cfg * d4pdx4) / beta2);
           viscy = viscy((i, j) := (- \<bar>lambda_y\<bar> * Cy cfg * d4pdy4) / beta2)
       in (viscx, viscy)))"

definition cav_sides_body ::
  "config \<Rightarrow> nat \<Rightarrow> nat \<Rightarrow> Array2 \<times> Array2 \<Rightarrow> Array2 \<times> Array2" where
  "cav_sides_body cfg i j s =
    (case s of (viscx, viscy) \<Rightarrow>
      (let viscx =
             (if i = 1 then
                (let slope_x = (viscx (i + 2, j) - viscx (i + 1, j)) / dx cfg;
                     viscx = viscx((i, j) := viscx (i + 1, j) + (slope_x * dx cfg));
                     slope_y = (viscx (i + 2, j) - viscx (i + 1, j)) / dx cfg;
                     viscx = viscx((i, j) := viscx (i + 1, j) + (slope_y * dx cfg))
                 in viscx)
              else viscx);
           viscx =
             (if i = imax cfg - 1 then
                (let slope_x = (viscx (i - 2, j) - viscx (i - 1, j)) / dx cfg;
                     viscx = viscx((i, j) := viscx (i - 1, j) + (slope_x * dx cfg));
                     slope_y = (viscx (i - 2, j) - viscx (i - 1, j)) / dx cfg;
                     viscx = viscx((i, j) := viscx (i - 1, j) + (slope_y * dx cfg))
                 in viscx)
              else viscx)
       in (viscx, viscy)))"

definition cav_top_bottom_body ::
  "config \<Rightarrow> nat \<Rightarrow> nat \<Rightarrow> Array2 \<times> Array2 \<Rightarrow> Array2 \<times> Array2" where
  "cav_top_bottom_body cfg j i s =
    (case s of (viscx, viscy) \<Rightarrow>
      (let viscx =
             (if j = 1 then
                (let slope_x = (viscx (i, j + 2) - viscx (i, j + 1)) / dy cfg;
                     viscx = viscx((i, j) := viscx (i, j + 1) + (slope_x * dy cfg));
                     slope_y = (viscy (i, j + 2) - viscy (i, j + 1)) / dy cfg;
                     viscx = viscx((i, j) := viscy (i, j + 1) + (slope_y * dy cfg))
                 in viscx)
              else viscx);
           viscx =
             (if j = jmax cfg - 1 then
                (let slope_x = (viscx (i, j - 2) - viscx (i, j - 1)) / dy cfg;
                     viscx = viscx((i, j) := viscx (i - 1, j) + (slope_x * dy cfg));
                     slope_y = (viscy (i, j - 2) - viscy (i, j - 1)) / dy cfg;
                     viscx = viscx((i, j) := viscy (i, j - 1) + (slope_y * dy cfg))
                 in viscx)
              else viscx)
       in (viscx, viscy)))"

definition cav_stencil_pass :: "config \<Rightarrow> Array3 \<Rightarrow> Array2 \<times> Array2 \<Rightarrow> Array2 \<times> Array2" where
  "cav_stencil_pass cfg u s =
    fold (\<lambda>j. fold (\<lambda>i. cav_stencil_body cfg u j i) [2..<imax cfg - 2]) [2..<jmax cfg - 2] s"

definition cav_sides_pass :: "config \<Rightarrow> Array2 \<times> Array2 \<Rightarrow> Array2 \<times> Array2" where
  "cav_sides_pass cfg s =
    fold (\<lambda>i. fold (\<lambda>j. cav_sides_body cfg i j) [1..<jmax cfg - 1]) [1, imax cfg - 2] s"

definition cav_top_bottom_pass :: "config \<Rightarrow> Array2 \<times> Array2 \<Rightarrow> Array2 \<times> Array2" where
  "cav_top_bottom_pass cfg s =
    fold (\<lambda>j. fold (\<lambda>i. cav_top_bottom_body cfg j i) [1..<imax cfg - 1]) [1, jmax cfg - 2] s"

definition Compute_Artificial_Viscosity ::
  "config \<Rightarrow> Array3 \<Rightarrow> Array2 \<times> Array2 \<Rightarrow> Array2 \<times> Array2" where
  "Compute_Artificial_Viscosity cfg u s =
    cav_top_bottom_pass cfg (cav_sides_pass cfg (cav_stencil_pass cfg u s))"

subsection \<open>Relaxation sweeps\<close>

text \<open>
  \<^verbatim>\<open>SGS_forward_sweep\<close> and \<^verbatim>\<open>SGS_backward_sweep\<close> have the same loop body (the forward
  one writes the literal \<^verbatim>\<open>2\<close> where the backward one writes \<^verbatim>\<open>two\<close>); they differ in
  the order of the nodes. The body updates \<^verbatim>\<open>u\<close> in place: the y-momentum residual reads
  the x-velocity the line before has just stored.
\<close>

definition SGS_beta2 :: "config \<Rightarrow> Array3 \<Rightarrow> nat \<Rightarrow> nat \<Rightarrow> real" where
  "SGS_beta2 cfg u i j =
    (let uvel2 = pow2 (u (i, j, 1)) + pow2 (u (i, j, 2))
     in max uvel2 (rkappa cfg * uinf cfg))"

definition SGS_body ::
  "config \<Rightarrow> Array2 \<Rightarrow> Array2 \<Rightarrow> Array2 \<Rightarrow> Array3 \<Rightarrow> nat \<Rightarrow> nat \<Rightarrow> Array3 \<Rightarrow> Array3" where
  "SGS_body cfg viscx viscy dt s j i u =
    (let beta2 = SGS_beta2 cfg u i j;
         dpdx = (u (i + 1, j, 0) - u (i - 1, j, 0)) / (2 * dx cfg);
         dpdy = (u (i, j + 1, 0) - u (i, j - 1, 0)) / (2 * dy cfg);
         dudx = (u (i + 1, j, 1) - u (i - 1, j, 1)) / (2 * dx cfg);
         dudy = (u (i, j + 1, 1) - u (i, j - 1, 1)) / (2 * dy cfg);
         d2udx2 = (u (i + 1, j, 1) - 2 * u (i, j, 1) + u (i - 1, j, 1)) / (dx cfg * dx cfg);
         d2udy2 = (u (i, j + 1, 1) - 2 * u (i, j, 1) + u (i, j - 1, 1)) / (dy cfg * dy cfg);
         dvdx = (u (i + 1, j, 2) - u (i - 1, j, 2)) / (2 * dx cfg);
         dvdy = (u (i, j + 1, 2) - u (i, j - 1, 2)) / (2 * dy cfg);
         d2vdx2 = (u (i + 1, j, 2) - 2 * u (i, j, 2) + u (i - 1, j, 2)) / (dx cfg * dx cfg);
         d2vdy2 = (u (i, j + 1, 2) - 2 * u (i, j, 2) + u (i, j - 1, 2)) / (dy cfg * dy cfg);
         continuity_it_resid =
           (rho cfg * dudx) + (rho cfg * dvdy) - viscx (i, j) - viscy (i, j) - s (i, j, 0);
         u = u((i, j, 0) := u (i, j, 0) - beta2 * dt (i, j) * continuity_it_resid);
         xmomentum_it_resid =
           (rho cfg * u (i, j, 1) * dudx) + (rho cfg * u (i, j, 2) * dudy) + dpdx
             - (rmu cfg * d2udx2) - (rmu cfg * d2udy2) - s (i, j, 1);
         u = u((i, j, 1) := u (i, j, 1) - dt (i, j) * rhoinv cfg * xmomentum_it_resid);
         ymomentum_it_resid =
           (rho cfg * u (i, j, 1) * dvdx) + (rho cfg * u (i, j, 2) * dvdy) + dpdy
             - (rmu cfg * d2vdx2) - (rmu cfg * d2vdy2) - s (i, j, 2);
         u = u((i, j, 2) := u (i, j, 2) - dt (i, j) * rhoinv cfg * ymomentum_it_resid)
     in u)"

definition SGS_forward_sweep ::
  "config \<Rightarrow> Array3 \<Rightarrow> Array2 \<Rightarrow> Array2 \<Rightarrow> Array2 \<Rightarrow> Array3 \<Rightarrow> Array3" where
  "SGS_forward_sweep cfg u viscx viscy dt s =
    fold (\<lambda>j. fold (\<lambda>i. SGS_body cfg viscx viscy dt s j i) [1..<imax cfg - 1])
      [1..<jmax cfg - 1] u"

definition SGS_backward_sweep ::
  "config \<Rightarrow> Array3 \<Rightarrow> Array2 \<Rightarrow> Array2 \<Rightarrow> Array2 \<Rightarrow> Array3 \<Rightarrow> Array3" where
  "SGS_backward_sweep cfg u viscx viscy dt s =
    fold (\<lambda>j. fold (\<lambda>i. SGS_body cfg viscx viscy dt s j i) (rev [1..<imax cfg - 1]))
      (rev [1..<jmax cfg - 1]) u"

text \<open>
  \<^verbatim>\<open>point_Jacobi\<close>: the derivatives and the convective velocities are read from
  \<^verbatim>\<open>uold\<close>; \<^verbatim>\<open>uvel2\<close> is read from \<^verbatim>\<open>u\<close>, the array being written.
\<close>

definition point_Jacobi_beta2 :: "config \<Rightarrow> Array3 \<Rightarrow> nat \<Rightarrow> nat \<Rightarrow> real" where
  "point_Jacobi_beta2 cfg u i j =
    (let uvel2 = pow2 (u (i, j, 1)) + pow2 (u (i, j, 2))
     in max uvel2 (rkappa cfg * vel2ref cfg))"

definition point_Jacobi_body ::
  "config \<Rightarrow> Array3 \<Rightarrow> Array2 \<Rightarrow> Array2 \<Rightarrow> Array2 \<Rightarrow> Array3 \<Rightarrow> nat \<Rightarrow> nat \<Rightarrow> Array3 \<Rightarrow> Array3"
  where
  "point_Jacobi_body cfg uold viscx viscy dt s i j u =
    (let dpdx = (uold (i + 1, j, 0) - uold (i - 1, j, 0)) / (2 * dx cfg);
         dpdy = (uold (i, j + 1, 0) - uold (i, j - 1, 0)) / (2 * dy cfg);
         dudx = (uold (i + 1, j, 1) - uold (i - 1, j, 1)) / (2 * dx cfg);
         dudy = (uold (i, j + 1, 1) - uold (i, j - 1, 1)) / (2 * dy cfg);
         dvdx = (uold (i + 1, j, 2) - uold (i - 1, j, 2)) / (2 * dx cfg);
         dvdy = (uold (i, j + 1, 2) - uold (i, j - 1, 2)) / (2 * dy cfg);
         d2udx2 = (uold (i + 1, j, 1) - 2 * uold (i, j, 1) + uold (i - 1, j, 1)) / pow2 (dx cfg);
         d2udy2 = (uold (i, j + 1, 1) - 2 * uold (i, j, 1) + uold (i, j - 1, 1)) / pow2 (dy cfg);
         d2vdx2 = (uold (i + 1, j, 2) - 2 * uold (i, j, 2) + uold (i - 1, j, 2)) / pow2 (dx cfg);
         d2vdy2 = (uold (i, j + 1, 2) - 2 * uold (i, j, 2) + uold (i, j - 1, 2)) / pow2 (dy cfg);
         beta2 = point_Jacobi_beta2 cfg u i j;
         u = u((i, j, 0) := uold (i, j, 0)
               - (beta2 * dt (i, j)
                   * ((rho cfg * dudx) + (rho cfg * dvdy) - viscx (i, j) - viscy (i, j) - s (i, j, 0))));
         u = u((i, j, 1) := uold (i, j, 1)
               - ((dt (i, j) * rhoinv cfg)
                   * ((rho cfg * uold (i, j, 1) * dudx) + (rho cfg * uold (i, j, 2) * dudy) + dpdx
                       - (rmu cfg * d2udx2) - (rmu cfg * d2udy2) - s (i, j, 1))));
         u = u((i, j, 2) := uold (i, j, 2)
               - ((dt (i, j) * rhoinv cfg)
                   * ((rho cfg * uold (i, j, 1) * dvdx) + (rho cfg * uold (i, j, 2) * dvdy) + dpdy
                       - (rmu cfg * d2vdx2) - (rmu cfg * d2vdy2) - s (i, j, 2))))
     in u)"

definition point_Jacobi ::
  "config \<Rightarrow> Array3 \<Rightarrow> Array3 \<Rightarrow> Array2 \<Rightarrow> Array2 \<Rightarrow> Array2 \<Rightarrow> Array3 \<Rightarrow> Array3" where
  "point_Jacobi cfg u uold viscx viscy dt s =
    fold (\<lambda>i. fold (\<lambda>j. point_Jacobi_body cfg uold viscx viscy dt s i j) [1..<jmax cfg - 1])
      [1..<imax cfg - 1] u"

text \<open>
  The two iteration steps. Each takes the boundary applier the way the source takes the
  function pointer, and returns the arrays it has changed: \<open>(u, uold, viscx, viscy)\<close>.
  \<^verbatim>\<open>copyData\<close> makes \<^verbatim>\<open>uold\<close> hold the values of \<^verbatim>\<open>u\<close>; \<^verbatim>\<open>swapData\<close> exchanges the
  two data pointers, so that each name denotes the block the other one had.
\<close>

definition GS_iteration ::
  "(Array3 \<Rightarrow> Array3) \<Rightarrow> config \<Rightarrow> Array3 \<Rightarrow> Array3 \<Rightarrow> Array3 \<Rightarrow> Array2 \<Rightarrow> Array2 \<Rightarrow> Array2
     \<Rightarrow> Array3 \<times> Array3 \<times> Array2 \<times> Array2" where
  "GS_iteration set_boundary_conditions cfg u uold src viscx viscy dt =
    (let uold = u;
         (viscx, viscy) = Compute_Artificial_Viscosity cfg u (viscx, viscy);
         u = SGS_forward_sweep cfg u viscx viscy dt src;
         u = set_boundary_conditions u;
         (viscx, viscy) = Compute_Artificial_Viscosity cfg u (viscx, viscy);
         u = SGS_backward_sweep cfg u viscx viscy dt src;
         u = set_boundary_conditions u
     in (u, uold, viscx, viscy))"

definition swapData :: "Array3 \<times> Array3 \<Rightarrow> Array3 \<times> Array3" where
  "swapData p = (case p of (this, A) \<Rightarrow> (A, this))"

definition PJ_iteration ::
  "(Array3 \<Rightarrow> Array3) \<Rightarrow> config \<Rightarrow> Array3 \<Rightarrow> Array3 \<Rightarrow> Array3 \<Rightarrow> Array2 \<Rightarrow> Array2 \<Rightarrow> Array2
     \<Rightarrow> Array3 \<times> Array3 \<times> Array2 \<times> Array2" where
  "PJ_iteration set_boundary_conditions cfg u uold src viscx viscy dt =
    (let (uold, u) = swapData (uold, u);
         (viscx, viscy) = Compute_Artificial_Viscosity cfg uold (viscx, viscy);
         u = point_Jacobi cfg u uold viscx viscy dt src;
         u = set_boundary_conditions u
     in (u, uold, viscx, viscy))"

subsection \<open>Convergence monitor\<close>

text \<open>
  \<^verbatim>\<open>check_iterative_convergence\<close> without its printing. \<^verbatim>\<open>local_resid\<close> is a variable
  of the function, assigned in each of the three branches on \<open>k\<close>; it is carried along
  with \<^verbatim>\<open>res\<close>. The product \<^verbatim>\<open>imax*jmax\<close> is taken in \<^verbatim>\<open>int\<close> by the source and is
  assumed not to overflow.
\<close>

definition convergence_beta2 :: "config \<Rightarrow> Array3 \<Rightarrow> nat \<Rightarrow> nat \<Rightarrow> real" where
  "convergence_beta2 cfg u i j =
    (let uvel2 = pow2 (u (i, j, 1)) + pow2 (u (i, j, 2))
     in max uvel2 (rkappa cfg * uinf cfg))"

definition local_resid ::
  "config \<Rightarrow> Array3 \<Rightarrow> Array3 \<Rightarrow> Array2 \<Rightarrow> nat \<Rightarrow> nat \<Rightarrow> nat \<Rightarrow> real \<Rightarrow> real" where
  "local_resid cfg u uold dt i j k previous =
    (if k = 0 then
       (let beta2 = convergence_beta2 cfg u i j
        in (u (i, j, 0) - uold (i, j, 0)) / (- beta2 * dt (i, j)))
     else if k = 1 then - rho cfg * (u (i, j, 1) - uold (i, j, 1)) / dt (i, j)
     else if k = 2 then - rho cfg * (u (i, j, 2) - uold (i, j, 2)) / dt (i, j)
     else previous)"

definition convergence_body ::
  "config \<Rightarrow> Array3 \<Rightarrow> Array3 \<Rightarrow> Array2 \<Rightarrow> nat \<Rightarrow> nat \<Rightarrow> nat \<Rightarrow> (nat \<Rightarrow> real) \<times> real
     \<Rightarrow> (nat \<Rightarrow> real) \<times> real" where
  "convergence_body cfg u uold dt i j k s =
    (case s of (res, previous) \<Rightarrow>
      (let r = local_resid cfg u uold dt i j k previous
       in (res(k := res k + pow2 \<bar>r\<bar>), r)))"

definition check_iterative_convergence ::
  "config \<Rightarrow> Array3 \<Rightarrow> Array3 \<Rightarrow> Array2 \<Rightarrow> (nat \<Rightarrow> real) \<Rightarrow> (nat \<Rightarrow> real) \<times> real" where
  "check_iterative_convergence cfg u uold dt resinit =
    (let (res, r) =
           fold (\<lambda>i. fold (\<lambda>j. fold (\<lambda>k. convergence_body cfg u uold dt i j k) [0..<3])
                   [1..<jmax cfg - 1])
             [1..<imax cfg - 1] (\<lambda>k. 0, 0);
         res = res(0 := sqrt (res 0 / real (imax cfg * jmax cfg)));
         res = res(1 := sqrt (res 1 / real (imax cfg * jmax cfg)));
         res = res(2 := sqrt (res 2 / real (imax cfg * jmax cfg)));
         L2Norminit = sqrt (pow2 (resinit 0) / real (imax cfg * jmax cfg));
         conv = max (res 0) (max (res 1) (res 2)) / L2Norminit
     in (res, conv))"

subsection \<open>One pass of the main loop\<close>

text \<open>
  The body of the main loop up to the convergence test; \<^verbatim>\<open>iterationStep\<close> and
  \<^verbatim>\<open>set_boundary_conditions\<close> are the two function pointers chosen before the loop
  (\<open>None\<close> stands for the error exit on a flag other than 0 or 1).
\<close>

definition select_iterationStep ::
  "config \<Rightarrow> ((Array3 \<Rightarrow> Array3) \<Rightarrow> config \<Rightarrow> Array3 \<Rightarrow> Array3 \<Rightarrow> Array3 \<Rightarrow> Array2 \<Rightarrow> Array2
     \<Rightarrow> Array2 \<Rightarrow> Array3 \<times> Array3 \<times> Array2 \<times> Array2) option" where
  "select_iterationStep cfg =
    (if isgs cfg = 1 then Some GS_iteration
     else if isgs cfg = 0 then Some PJ_iteration
     else None)"

definition select_boundary_conditions :: "config \<Rightarrow> (Array3 \<Rightarrow> Array3) option" where
  "select_boundary_conditions cfg =
    (if imms cfg = 0 then Some (bndry cfg)
     else if imms cfg = 1 then Some (bndrymms cfg)
     else None)"

record solver =
  s_u :: Array3
  s_uold :: Array3
  s_src :: Array3
  s_viscx :: Array2
  s_viscy :: Array2
  s_dt :: Array2
  s_dtmin :: real
  s_rtime :: real
  s_res :: "nat \<Rightarrow> real"
  s_resinit :: "nat \<Rightarrow> real"
  s_conv :: real

definition main_loop_body ::
  "((Array3 \<Rightarrow> Array3) \<Rightarrow> config \<Rightarrow> Array3 \<Rightarrow> Array3 \<Rightarrow> Array3 \<Rightarrow> Array2 \<Rightarrow> Array2 \<Rightarrow> Array2
      \<Rightarrow> Array3 \<times> Array3 \<times> Array2 \<times> Array2)
   \<Rightarrow> (Array3 \<Rightarrow> Array3) \<Rightarrow> config \<Rightarrow> solver \<Rightarrow> solver" where
  "main_loop_body iterationStep set_boundary_conditions cfg st =
    (let (dt, dtmin) = compute_time_step cfg (s_u st) (s_dt st) (s_dtmin st);
         (u, uold, viscx, viscy) =
           iterationStep set_boundary_conditions cfg (s_u st) (s_uold st) (s_src st)
             (s_viscx st) (s_viscy st) dt;
         u = pressure_rescaling cfg u;
         rtime = s_rtime st + dtmin;
         (res, conv) = check_iterative_convergence cfg u uold dt (s_resinit st)
     in st\<lparr>s_u := u, s_uold := uold, s_viscx := viscx, s_viscy := viscy, s_dt := dt,
           s_dtmin := dtmin, s_rtime := rtime, s_res := res, s_conv := conv\<rparr>)"

subsection \<open>Convergence test on special values\<close>

text \<open>
  What the convergence test does when a residual norm is not a number is a matter of the
  special values of \<^verbatim>\<open>double\<close>, which \<^typ>\<open>real\<close> does not have. For this test alone a
  \<^verbatim>\<open>double\<close> is a real number, \<open>+Inf\<close>, \<open>-Inf\<close> or NaN, with the operations as C
  defines them on these: \<^verbatim>\<open>fmax\<close> returns the other argument when one is NaN, a
  comparison with NaN is false, and division follows IEEE 754. Rounding, overflow and
  the sign of zero are not modelled. The norms \<^verbatim>\<open>res[k]\<close> and \<^verbatim>\<open>L2Norminit\<close> are results
  of \<^verbatim>\<open>sqrt\<close>: NaN, \<open>+Inf\<close> or a number that is not negative.
\<close>

datatype dbl = Fin real | PInf | NInf | NaN

fun fmaxd :: "dbl \<Rightarrow> dbl \<Rightarrow> dbl" where
  "fmaxd NaN y = y"
| "fmaxd x NaN = x"
| "fmaxd PInf y = PInf"
| "fmaxd x PInf = PInf"
| "fmaxd NInf y = y"
| "fmaxd x NInf = x"
| "fmaxd (Fin a) (Fin b) = Fin (max a b)"

fun divd :: "dbl \<Rightarrow> dbl \<Rightarrow> dbl" where
  "divd NaN y = NaN"
| "divd x NaN = NaN"
| "divd (Fin a) (Fin b) =
     (if b = 0 then (if a = 0 then NaN else if 0 < a then PInf else NInf) else Fin (a / b))"
| "divd (Fin a) y = Fin 0"
| "divd PInf (Fin b) = (if 0 \<le> b then PInf else NInf)"
| "divd NInf (Fin b) = (if 0 \<le> b then NInf else PInf)"
| "divd x y = NaN"

fun lessd :: "dbl \<Rightarrow> dbl \<Rightarrow> bool" where
  "lessd NaN y = False"
| "lessd x NaN = False"
| "lessd (Fin a) (Fin b) = (a < b)"
| "lessd x NInf = False"
| "lessd NInf y = True"
| "lessd PInf y = False"
| "lessd (Fin a) PInf = True"

fun is_negative :: "dbl \<Rightarrow> bool" where
  "is_negative (Fin b) = (b < 0)"
| "is_negative NInf = True"
| "is_negative x = False"

text \<open>
  The ratio of line 1378, \<^verbatim>\<open>conv = fmax(res[0],fmax(res[1],res[2])) / L2Norminit\<close>, and
  the test \<^verbatim>\<open>conv<toler\<close> of the main loop that jumps to \<^verbatim>\<open>converged\<close>.
\<close>

definition conv_ratio :: "dbl \<Rightarrow> dbl \<Rightarrow> dbl \<Rightarrow> dbl \<Rightarrow> dbl" where
  "conv_ratio res0 res1 res2 L2Norminit = divd (fmaxd res0 (fmaxd res1 res2)) L2Norminit"

definition converged_exit :: "dbl \<Rightarrow> dbl \<Rightarrow> dbl \<Rightarrow> dbl \<Rightarrow> dbl \<Rightarrow> bool" where
  "converged_exit res0 res1 res2 L2Norminit tol = lessd (conv_ratio res0 res1 res2 L2Norminit) tol"

text \<open>
  The preconditioning parameter as the specification words it (section 4.5):
  \<open>\<beta>\<^sup>2 = max(q2, \<kappa> Uref\<^sup>2)\<close> with \<open>q2 = u\<^sup>2 + v\<^sup>2\<close> at the node, \<open>\<kappa>\<close> the constant
  \<^verbatim>\<open>rkappa\<close> and \<open>Uref\<close> the lid velocity. It is compared with the \<^verbatim>\<open>beta2\<close> of each
  routine.
\<close>

definition beta2_spec :: "config \<Rightarrow> Array3 \<Rightarrow> nat \<Rightarrow> nat \<Rightarrow> real" where
  "beta2_spec cfg u i j =
    max ((u (i, j, 1))\<^sup>2 + (u (i, j, 2))\<^sup>2) (rkappa cfg * (uinf cfg)\<^sup>2)"

subsection \<open>Small grids and fields used to run the definitions\<close>

definition cavity5 :: config where
  "cavity5 = shipped\<lparr>imax := 5, jmax := 5\<rparr>"

definition ramp :: Array3 where
  "ramp = (\<lambda>(i, j, k). real i + 10 * real j + 100 * real k)"

definition spike :: Array3 where
  "spike = (\<lambda>p. if p = (1, 0, 0) then 1 else 0)"

definition cavity3 :: config where
  "cavity3 = shipped\<lparr>imax := 3, jmax := 3\<rparr>"

definition cavity7 :: config where
  "cavity7 = shipped\<lparr>imax := 7, jmax := 7\<rparr>"

definition wave :: Array3 where
  "wave = (\<lambda>(i, j, k). if k = 0 then real i ^ 5 + real j ^ 5
                       else if k = 1 then 2 else if k = 2 then 1 else 0)"

definition shear :: Array3 where
  "shear = (\<lambda>(i, j, k). if k = 1 then real i else 0)"

definition bump :: Array3 where
  "bump = (\<lambda>p. if p = (2, 2, 1) then 1 else 0)"

definition lid2 :: config where
  "lid2 = shipped\<lparr>uinf := 2\<rparr>"

definition gust :: Array3 where
  "gust = (\<lambda>p. if p = (1, 1, 1) \<or> p = (1, 1, 2) then 1 else 0)"

section \<open>Array addressing\<close>

text \<open>
  Two index tuples inside the block have the same offset only if they are equal; this is
  what lets a field be a function of the index tuple.
\<close>

lemma Array2_offset_inj:
  assumes "j < jdim" and "j' < jdim" and "Array2_offset jdim i j = Array2_offset jdim i' j'"
  shows "i = i' \<and> j = j'"
proof -
  have "(i * jdim + j) mod jdim = (i' * jdim + j') mod jdim"
    and "(i * jdim + j) div jdim = (i' * jdim + j') div jdim"
    using assms(3) by (simp_all add: Array2_offset_def)
  then show ?thesis using assms(1,2) by simp
qed

lemma Array3_offset_inj:
  assumes "j < jdim" and "j' < jdim" and "k < kdim" and "k' < kdim"
    and "Array3_offset jdim kdim i j k = Array3_offset jdim kdim i' j' k'"
  shows "i = i' \<and> j = j' \<and> k = k'"
proof -
  have e: "(i * jdim + j) * kdim + k = (i' * jdim + j') * kdim + k'"
    using assms(5) by (simp add: Array3_offset_def algebra_simps)
  then have "((i * jdim + j) * kdim + k) mod kdim = ((i' * jdim + j') * kdim + k') mod kdim"
    and "((i * jdim + j) * kdim + k) div kdim = ((i' * jdim + j') * kdim + k') div kdim"
    by simp_all
  then have k: "k = k'" and "Array2_offset jdim i j = Array2_offset jdim i' j'"
    using assms(3,4) by (simp_all add: Array2_offset_def)
  with Array2_offset_inj [OF assms(1,2)] show ?thesis by simp
qed

section \<open>Loops over index ranges\<close>

text \<open>
  A loop nest \<^verbatim>\<open>for i ... for j ...\<close> is a fold inside a fold; it visits the pairs of
  \<^term>\<open>List.product\<close> in order.
\<close>

lemma fold_nested_product:
  "fold (\<lambda>i. fold (\<lambda>j. f i j) ys) xs s = fold (\<lambda>(i, j). f i j) (List.product xs ys) s"
proof (induction xs arbitrary: s)
  case Nil
  show ?case by simp
next
  case (Cons x xs)
  have "fold (\<lambda>(i, j). f i j) (map (Pair x) ys) s = fold (\<lambda>j. f x j) ys s"
    by (simp add: fold_map comp_def)
  with Cons show ?case by simp
qed

text \<open>A loop whose body rewrites one cell from that cell's own value.\<close>

lemma fold_own_cell:
  "distinct (map key xs) \<Longrightarrow>
   fold (\<lambda>x u. u(key x := h (u (key x)))) xs u p =
     (if p \<in> key ` set xs then h (u p) else u p)"
proof (induction xs arbitrary: u)
  case Nil
  show ?case by simp
next
  case (Cons x xs)
  from Cons.prems have d: "distinct (map key xs)" and n: "key x \<notin> key ` set xs"
    by auto
  show ?case
    using Cons.IH [OF d, of "u(key x := h (u (key x)))"] n by auto
qed

lemma pressure_rescaling_cell:
  "pressure_rescaling cfg u (i, j, k) =
     (if i < imax cfg \<and> j < jmax cfg \<and> k = 0
      then u (i, j, k) - deltap cfg u else u (i, j, k))"
proof -
  let ?key = "\<lambda>(i, j). (i, j, 0::nat)"
  let ?xs = "List.product [0..<imax cfg] [0..<jmax cfg]"
  have inj: "inj ?key" by (auto simp: inj_on_def)
  have d: "distinct (map ?key ?xs)"
    by (simp add: distinct_map distinct_product inj_on_subset [OF inj])
  have body: "(\<lambda>(i, j) u. u((i, j, 0) := u (i, j, 0) - deltap cfg u0)) =
      (\<lambda>x u. u(?key x := (\<lambda>v. v - deltap cfg u0) (u (?key x))))" for u0
    by (auto simp: fun_eq_iff)
  have mem: "(i, j, k) \<in> ?key ` set ?xs \<longleftrightarrow> i < imax cfg \<and> j < jmax cfg \<and> k = 0"
    by (auto simp: image_iff)
  have "pressure_rescaling cfg u (i, j, k) =
      fold (\<lambda>x w. w(?key x := (\<lambda>v. v - deltap cfg u) (w (?key x)))) ?xs u (i, j, k)"
    unfolding pressure_rescaling_def Let_def fold_nested_product body ..
  also have "\<dots> = (if (i, j, k) \<in> ?key ` set ?xs
      then u (i, j, k) - deltap cfg u else u (i, j, k))"
    by (rule fold_own_cell [OF d])
  finally show ?thesis unfolding mem .
qed

section \<open>Pressure anchor\<close>

text \<open>
  C5. After \<^verbatim>\<open>pressure_rescaling\<close> the pressure at the centre node
  \<open>((imax-1)/2, (jmax-1)/2)\<close> is the reference pressure: the manufactured pressure at the
  centre when \<^verbatim>\<open>imms == 1\<close>, the input constant \<^verbatim>\<open>pinf\<close> otherwise. This holds for
  every field on every non-empty grid, in exact arithmetic, hence for the field each pass
  of the main loop leaves behind.
\<close>

theorem pressure_rescaling_center:
  assumes "0 < imax cfg" and "0 < jmax cfg"
  shows "pressure_rescaling cfg u ((imax cfg - 1) div 2, (jmax cfg - 1) div 2, 0) =
    (if imms cfg = 1
     then umms cfg ((xmax cfg - xmin cfg) * real ((imax cfg - 1) div 2) / real (imax cfg - 1))
            ((ymax cfg - ymin cfg) * real ((jmax cfg - 1) div 2) / real (jmax cfg - 1)) 0
     else pinf cfg) \<and>
    s_u (main_loop_body iterationStep set_boundary_conditions cfg st)
        ((imax cfg - 1) div 2, (jmax cfg - 1) div 2, 0) =
    (if imms cfg = 1
     then umms cfg ((xmax cfg - xmin cfg) * real ((imax cfg - 1) div 2) / real (imax cfg - 1))
            ((ymax cfg - ymin cfg) * real ((jmax cfg - 1) div 2) / real (jmax cfg - 1)) 0
     else pinf cfg)"
proof -
  have "(imax cfg - 1) div 2 < imax cfg" and "(jmax cfg - 1) div 2 < jmax cfg"
    using assms by simp_all
  then have c: "pressure_rescaling cfg w ((imax cfg - 1) div 2, (jmax cfg - 1) div 2, 0) =
    (if imms cfg = 1
     then umms cfg ((xmax cfg - xmin cfg) * real ((imax cfg - 1) div 2) / real (imax cfg - 1))
            ((ymax cfg - ymin cfg) * real ((jmax cfg - 1) div 2) / real (jmax cfg - 1)) 0
     else pinf cfg)" for w
    by (simp add: pressure_rescaling_cell deltap_def iref_def jref_def Let_def)
  have "\<exists>w. s_u (main_loop_body iterationStep set_boundary_conditions cfg st) =
      pressure_rescaling cfg w"
    by (auto simp: main_loop_body_def Let_def split: prod.splits)
  with c show ?thesis by auto
qed

theorem pressure_rescaling_center_witness:
  "0 < imax cavity5 \<and> 0 < jmax cavity5 \<and> pressure_rescaling cavity5 ramp (2, 2, 0) = pinf cavity5"
  using pressure_rescaling_center [of cavity5 ramp]
  by (simp add: cavity5_def shipped_def)

text \<open>
  C10. \<^verbatim>\<open>pressure_rescaling\<close> leaves every velocity component where it is and subtracts
  one number, \<^term>\<open>deltap cfg u\<close>, from the pressure of every node of the grid; hence
  the difference of the pressures of any two nodes is the same before and after.
\<close>

theorem pressure_rescaling_frame:
  "(\<forall>i j k. k \<noteq> 0 \<longrightarrow> pressure_rescaling cfg u (i, j, k) = u (i, j, k)) \<and>
   (\<forall>i<imax cfg. \<forall>j<jmax cfg.
      pressure_rescaling cfg u (i, j, 0) = u (i, j, 0) - deltap cfg u) \<and>
   (\<forall>i<imax cfg. \<forall>j<jmax cfg. \<forall>i'<imax cfg. \<forall>j'<jmax cfg.
      pressure_rescaling cfg u (i, j, 0) - pressure_rescaling cfg u (i', j', 0) =
        u (i, j, 0) - u (i', j', 0))"
  by (simp add: pressure_rescaling_cell)

theorem pressure_rescaling_frame_witness:
  "pressure_rescaling cavity5 ramp (1, 3, 2) = ramp (1, 3, 2) \<and>
   pressure_rescaling cavity5 ramp (1, 3, 0) = ramp (1, 3, 0) - deltap cavity5 ramp \<and>
   pressure_rescaling cavity5 ramp (1, 3, 0) - pressure_rescaling cavity5 ramp (4, 0, 0) =
     ramp (1, 3, 0) - ramp (4, 0, 0)"
  using pressure_rescaling_frame [of cavity5 ramp]
  by (simp add: cavity5_def shipped_def)

section \<open>Boundary appliers\<close>

text \<open>
  A loop whose iteration \<open>x\<close> reads and writes only the cells of row \<open>x\<close> gives every
  cell the value its own iteration computes from the initial field.
\<close>

lemma fold_row_local:
  assumes frame: "\<And>x u p. row p \<noteq> x \<Longrightarrow> body x u p = u p"
    and dep: "\<And>x u u' p. (\<And>q. row q = x \<Longrightarrow> u q = u' q) \<Longrightarrow> row p = x \<Longrightarrow> body x u p = body x u' p"
    and dist: "distinct xs"
  shows "fold body xs u p = (if row p \<in> set xs then body (row p) u p else u p)"
  using dist
proof (induction xs arbitrary: u)
  case Nil
  show ?case by simp
next
  case (Cons y ys)
  then have d: "distinct ys" and ny: "y \<notin> set ys" by auto
  have IH: "fold body ys (body y u) p =
      (if row p \<in> set ys then body (row p) (body y u) p else body y u p)"
    by (rule Cons.IH [OF d])
  show ?case
  proof (cases "row p \<in> set ys")
    case True
    with ny have ne: "row p \<noteq> y" by auto
    have "body (row p) (body y u) p = body (row p) u p"
      by (rule dep) (use ne frame in auto)
    with True IH ne show ?thesis by simp
  next
    case False
    with IH show ?thesis by (auto simp: frame)
  qed
qed

lemma bndry_side_pass_cell:
  "bndry_side_pass cfg u (i, j, k) =
     (if j < jmax cfg then bndry_side_body cfg j u (i, j, k) else u (i, j, k))"
proof -
  have "fold (bndry_side_body cfg) [0..<jmax cfg] u (i, j, k) =
    (if (fst \<circ> snd) (i, j, k) \<in> set [0..<jmax cfg]
     then bndry_side_body cfg ((fst \<circ> snd) (i, j, k)) u (i, j, k) else u (i, j, k))"
    by (rule fold_row_local) (auto simp: bndry_side_body_def Let_def)
  then show ?thesis by (simp add: bndry_side_pass_def)
qed

lemma bndry_lid_pass_cell:
  "bndry_lid_pass cfg u (i, j, k) =
     (if 1 \<le> i \<and> i < imax cfg - 1 then bndry_lid_body cfg i u (i, j, k) else u (i, j, k))"
proof -
  have "fold (bndry_lid_body cfg) [1..<imax cfg - 1] u (i, j, k) =
    (if fst (i, j, k) \<in> set [1..<imax cfg - 1]
     then bndry_lid_body cfg (fst (i, j, k)) u (i, j, k) else u (i, j, k))"
    by (rule fold_row_local) (auto simp: bndry_lid_body_def Let_def)
  then show ?thesis by (simp add: bndry_lid_pass_def)
qed

lemma bndrymms_side_pass_cell:
  "bndrymms_side_pass cfg u (i, j, k) =
     (if 1 \<le> j \<and> j < jmax cfg - 1 then bndrymms_side_body cfg j u (i, j, k) else u (i, j, k))"
proof -
  have "fold (bndrymms_side_body cfg) [1..<jmax cfg - 1] u (i, j, k) =
    (if (fst \<circ> snd) (i, j, k) \<in> set [1..<jmax cfg - 1]
     then bndrymms_side_body cfg ((fst \<circ> snd) (i, j, k)) u (i, j, k) else u (i, j, k))"
    by (rule fold_row_local) (auto simp: bndrymms_side_body_def Let_def)
  then show ?thesis by (simp add: bndrymms_side_pass_def)
qed

lemma bndrymms_lid_pass_cell:
  "bndrymms_lid_pass cfg u (i, j, k) =
     (if i < imax cfg then bndrymms_lid_body cfg i u (i, j, k) else u (i, j, k))"
proof -
  have "fold (bndrymms_lid_body cfg) [0..<imax cfg] u (i, j, k) =
    (if fst (i, j, k) \<in> set [0..<imax cfg]
     then bndrymms_lid_body cfg (fst (i, j, k)) u (i, j, k) else u (i, j, k))"
    by (rule fold_row_local) (auto simp: bndrymms_lid_body_def Let_def)
  then show ?thesis by (simp add: bndrymms_lid_pass_def)
qed



lemma bndry_side_body_frame:
  "(i \<noteq> 0 \<and> i \<noteq> imax cfg - 1) \<or> 3 \<le> k \<Longrightarrow> bndry_side_body cfg j u (i, j', k) = u (i, j', k)"
  by (auto simp add: bndry_side_body_def Let_def)

lemma bndry_lid_body_frame:
  "(j \<noteq> 0 \<and> j \<noteq> jmax cfg - 1) \<or> 3 \<le> k \<Longrightarrow> bndry_lid_body cfg i u (i', j, k) = u (i', j, k)"
  by (auto simp add: bndry_lid_body_def Let_def)

lemma bndry_side_pass_frame:
  "(i \<noteq> 0 \<and> i \<noteq> imax cfg - 1) \<or> 3 \<le> k \<or> jmax cfg \<le> j \<Longrightarrow> bndry_side_pass cfg u (i, j, k) = u (i, j, k)"
  by (auto simp add: bndry_side_pass_cell bndry_side_body_frame)

lemma bndry_lid_pass_frame:
  "(j \<noteq> 0 \<and> j \<noteq> jmax cfg - 1) \<or> 3 \<le> k \<or> i = 0 \<or> imax cfg - 1 \<le> i \<Longrightarrow> bndry_lid_pass cfg u (i, j, k) = u (i, j, k)"
  by (auto simp add: bndry_lid_pass_cell bndry_lid_body_frame)

lemma bndry_frame:
  assumes "0 < imax cfg" and "0 < jmax cfg" and "\<not> wall_cell cfg (i, j, k)"
  shows "bndry cfg u (i, j, k) = u (i, j, k)"
proof -
  from assms(3) consider "3 \<le> k" | "imax cfg \<le> i" | "jmax cfg \<le> j"
    | "i \<noteq> 0 \<and> i \<noteq> imax cfg - 1 \<and> j \<noteq> 0 \<and> j \<noteq> jmax cfg - 1"
    unfolding wall_cell_def by fastforce
  then show ?thesis
  proof cases
    case 1
    then show ?thesis by (simp add: bndry_def bndry_lid_pass_frame bndry_side_pass_frame)
  next
    case 2
    with assms(1) have "imax cfg - 1 \<le> i" and "i \<noteq> 0 \<and> i \<noteq> imax cfg - 1" by auto
    then show ?thesis by (simp add: bndry_def bndry_lid_pass_frame bndry_side_pass_frame)
  next
    case 3
    with assms(2) have "j \<noteq> 0 \<and> j \<noteq> jmax cfg - 1" by auto
    with 3 show ?thesis by (simp add: bndry_def bndry_lid_pass_frame bndry_side_pass_frame)
  next
    case 4
    then show ?thesis by (simp add: bndry_def bndry_lid_pass_frame bndry_side_pass_frame)
  qed
qed

text \<open>The values one iteration of each loop stores on its wall.\<close>

lemma bndry_side_body_left:
  "4 \<le> imax cfg \<Longrightarrow> bndry_side_body cfg j u (0, j, k) =
     (if k = 0 then 2 * u (1, j, 0) - u (2, j, 0) else if k < 3 then 0 else u (0, j, k))"
  by (auto simp add: bndry_side_body_def Let_def)

lemma bndry_side_body_right:
  "4 \<le> imax cfg \<Longrightarrow> i = imax cfg - 1 \<Longrightarrow> bndry_side_body cfg j u (i, j, k) =
     (if k = 0 then 2 * u (imax cfg - 2, j, 0) - u (imax cfg - 3, j, 0)
      else if k < 3 then 0 else u (i, j, k))"
  by (auto simp add: bndry_side_body_def Let_def)

lemma bndry_lid_body_bottom:
  "4 \<le> jmax cfg \<Longrightarrow> bndry_lid_body cfg i u (i, 0, k) =
     (if k = 0 then 2 * u (i, 1, 0) - u (i, 2, 0) else if k < 3 then 0 else u (i, 0, k))"
  by (auto simp add: bndry_lid_body_def Let_def)

lemma bndry_lid_body_top:
  "4 \<le> jmax cfg \<Longrightarrow> j = jmax cfg - 1 \<Longrightarrow> bndry_lid_body cfg i u (i, j, k) =
     (if k = 0 then 2 * u (i, jmax cfg - 2, 0) - u (i, jmax cfg - 3, 0)
      else if k = 1 then uinf cfg else if k = 2 then 0 else u (i, j, k))"
  by (auto simp add: bndry_lid_body_def Let_def)


lemma bndry_on_side:
  assumes "i = 0 \<or> i = imax cfg - 1" and "j < jmax cfg"
  shows "bndry cfg u (i, j, k) = bndry_side_body cfg j u (i, j, k)"
  using assms by (auto simp: bndry_def bndry_lid_pass_frame bndry_side_pass_cell)

lemma bndry_on_lid:
  assumes "1 \<le> i" and "i < imax cfg - 1" and "4 \<le> jmax cfg" and "j = 0 \<or> j = jmax cfg - 1"
  shows "bndry cfg u (i, j, k) =
    (if k = 0 then (if j = 0 then 2 * u (i, 1, 0) - u (i, 2, 0)
                    else 2 * u (i, jmax cfg - 2, 0) - u (i, jmax cfg - 3, 0))
     else if k = 1 then (if j = 0 then 0 else uinf cfg)
     else if k = 2 then 0 else u (i, j, k))"
proof -
  have s: "bndry_side_pass cfg u (i, j', k') = u (i, j', k')" for j' k'
    using assms(1,2) by (simp add: bndry_side_pass_frame)
  have "bndry cfg u (i, j, k) = bndry_lid_body cfg i (bndry_side_pass cfg u) (i, j, k)"
    using assms(1,2) by (simp add: bndry_def bndry_lid_pass_cell)
  moreover have "bndry_lid_body cfg i (bndry_side_pass cfg u) (i, j, k) =
    (if k = 0 then 2 * u (i, 1, 0) - u (i, 2, 0) else if k < 3 then 0 else u (i, j, k))"
    if "j = 0"
    using assms(3) unfolding that by (simp add: bndry_lid_body_bottom s)
  moreover have "bndry_lid_body cfg i (bndry_side_pass cfg u) (i, j, k) =
     (if k = 0 then 2 * u (i, jmax cfg - 2, 0) - u (i, jmax cfg - 3, 0)
      else if k = 1 then uinf cfg else if k = 2 then 0 else u (i, j, k))"
    if "j = jmax cfg - 1"
    unfolding bndry_lid_body_top [OF assms(3) that] s ..
  ultimately show ?thesis
    using assms(3,4) by auto
qed

lemma bndry_twice_cell:
  assumes "4 \<le> imax cfg" and "4 \<le> jmax cfg"
    and "\<not> (k = 0 \<and> (i = 0 \<or> i = imax cfg - 1) \<and> (j = 0 \<or> j = jmax cfg - 1))"
  shows "bndry cfg (bndry cfg u) (i, j, k) = bndry cfg u (i, j, k)"
proof -
  have pos: "0 < imax cfg" "0 < jmax cfg" using assms by auto
  have inner: "bndry cfg u (i', j', k') = u (i', j', k')"
    if "1 \<le> i'" "i' < imax cfg - 1" "1 \<le> j'" "j' < jmax cfg - 1" for i' j' k'
    using that by (intro bndry_frame pos) (simp add: wall_cell_def)
  consider (free) "\<not> wall_cell cfg (i, j, k)"
    | (lid) "1 \<le> i" "i < imax cfg - 1" "j = 0 \<or> j = jmax cfg - 1"
    | (side) "i = 0 \<or> i = imax cfg - 1" "1 \<le> j" "j < jmax cfg - 1"
    | (corner) "i = 0 \<or> i = imax cfg - 1" "j = 0 \<or> j = jmax cfg - 1" "k = 1 \<or> k = 2"
    using assms(3) unfolding wall_cell_def by fastforce
  then show ?thesis
  proof cases
    case free
    then show ?thesis by (simp add: bndry_frame pos)
  next
    case lid
    have "bndry cfg (bndry cfg u) (i, j, k) =
      (if k = 0 then (if j = 0 then 2 * u (i, 1, 0) - u (i, 2, 0)
                    else 2 * u (i, jmax cfg - 2, 0) - u (i, jmax cfg - 3, 0))
       else if k = 1 then (if j = 0 then 0 else uinf cfg)
       else if k = 2 then 0 else bndry cfg u (i, j, k))"
      using lid assms(2) by (simp add: bndry_on_lid [of i cfg j "bndry cfg u"] inner)
    also have "\<dots> = bndry cfg u (i, j, k)"
      using lid assms(2) by (simp add: bndry_on_lid [of i cfg j u])
    finally show ?thesis .
  next
    case side
    then have jm: "j < jmax cfg" by simp
    from side(1) show ?thesis
    proof
      assume i: "i = 0"
      show ?thesis
        using assms(1) side(2,3) unfolding i
        by (simp add: bndry_on_side [OF _ jm] bndry_side_body_left inner)
    next
      assume i: "i = imax cfg - 1"
      have "2 \<le> imax cfg - 2" "imax cfg - 2 < imax cfg - 1" "1 \<le> imax cfg - 3"
        "imax cfg - 3 < imax cfg - 1"
        using assms(1) by auto
      then have "bndry cfg u (imax cfg - 2, j, 0) = u (imax cfg - 2, j, 0)"
        "bndry cfg u (imax cfg - 3, j, 0) = u (imax cfg - 3, j, 0)"
        using side(2,3) by (auto intro!: inner)
      then show ?thesis
        unfolding bndry_on_side [OF side(1) jm] bndry_side_body_right [OF assms(1) i]
        by simp
    qed
  next
    case corner
    then have jm: "j < jmax cfg" using assms(2) by auto
    from corner(1) show ?thesis
    proof
      assume i: "i = 0"
      show ?thesis
        using assms(1) corner(3) unfolding i
        by (auto simp add: bndry_on_side [OF _ jm] bndry_side_body_left)
    next
      assume i: "i = imax cfg - 1"
      show ?thesis
        unfolding bndry_on_side [OF corner(1) jm] bndry_side_body_right [OF assms(1) i]
        using corner(3) by auto
    qed
  qed
qed

lemma nat_less_3: "k < 3 \<longleftrightarrow> k = 0 \<or> k = 1 \<or> k = (2::nat)"
  by auto

lemma bndrymms_side_body_frame:
  "(i \<noteq> 0 \<and> i \<noteq> imax cfg - 1) \<or> 3 \<le> k \<Longrightarrow>
   bndrymms_side_body cfg j u (i, j', k) = u (i, j', k)"
  by (auto simp add: bndrymms_side_body_def Let_def nat_less_3)

lemma bndrymms_lid_body_frame:
  "(j \<noteq> 0 \<and> j \<noteq> jmax cfg - 1) \<or> 3 \<le> k \<Longrightarrow>
   bndrymms_lid_body cfg i u (i', j, k) = u (i', j, k)"
  by (auto simp add: bndrymms_lid_body_def Let_def nat_less_3)

lemma bndrymms_side_pass_frame:
  "(i \<noteq> 0 \<and> i \<noteq> imax cfg - 1) \<or> 3 \<le> k \<or> j = 0 \<or> jmax cfg - 1 \<le> j \<Longrightarrow>
   bndrymms_side_pass cfg u (i, j, k) = u (i, j, k)"
  by (auto simp add: bndrymms_side_pass_cell bndrymms_side_body_frame)

lemma bndrymms_lid_pass_frame:
  "(j \<noteq> 0 \<and> j \<noteq> jmax cfg - 1) \<or> 3 \<le> k \<or> imax cfg \<le> i \<Longrightarrow>
   bndrymms_lid_pass cfg u (i, j, k) = u (i, j, k)"
  by (auto simp add: bndrymms_lid_pass_cell bndrymms_lid_body_frame)

lemma bndrymms_side_body_left:
  "4 \<le> imax cfg \<Longrightarrow> bndrymms_side_body cfg j u (0, j, k) =
     (if k = 0 then 2 * u (1, j, 0) - u (2, j, 0)
      else if k < 3 then umms cfg (xmin cfg) ((ymax cfg - ymin cfg) * real j / real (jmax cfg - 1)) k
      else u (0, j, k))"
  by (auto simp add: bndrymms_side_body_def Let_def nat_less_3)

lemma bndrymms_side_body_right:
  "4 \<le> imax cfg \<Longrightarrow> i = imax cfg - 1 \<Longrightarrow> bndrymms_side_body cfg j u (i, j, k) =
     (if k = 0 then 2 * u (imax cfg - 2, j, 0) - u (imax cfg - 3, j, 0)
      else if k < 3 then umms cfg (xmax cfg) ((ymax cfg - ymin cfg) * real j / real (jmax cfg - 1)) k
      else u (i, j, k))"
  by (auto simp add: bndrymms_side_body_def Let_def nat_less_3)

lemma bndrymms_lid_body_bottom:
  "4 \<le> jmax cfg \<Longrightarrow> bndrymms_lid_body cfg i u (i, 0, k) =
     (if k = 0 then 2 * u (i, 1, 0) - u (i, 2, 0)
      else if k < 3 then umms cfg ((xmax cfg - xmin cfg) * real i / real (imax cfg - 1)) (ymin cfg) k
      else u (i, 0, k))"
  by (auto simp add: bndrymms_lid_body_def Let_def nat_less_3)

lemma bndrymms_lid_body_top:
  "4 \<le> jmax cfg \<Longrightarrow> j = jmax cfg - 1 \<Longrightarrow> bndrymms_lid_body cfg i u (i, j, k) =
     (if k = 0 then 2 * u (i, jmax cfg - 2, 0) - u (i, jmax cfg - 3, 0)
      else if k < 3 then umms cfg ((xmax cfg - xmin cfg) * real i / real (imax cfg - 1)) (ymax cfg) k
      else u (i, j, k))"
  by (auto simp add: bndrymms_lid_body_def Let_def nat_less_3)

lemma bndrymms_frame:
  assumes "0 < imax cfg" and "0 < jmax cfg" and "\<not> wall_cell cfg (i, j, k)"
  shows "bndrymms cfg u (i, j, k) = u (i, j, k)"
proof -
  from assms(3) consider "3 \<le> k" | "imax cfg \<le> i" | "jmax cfg \<le> j"
    | "i \<noteq> 0 \<and> i \<noteq> imax cfg - 1 \<and> j \<noteq> 0 \<and> j \<noteq> jmax cfg - 1"
    unfolding wall_cell_def by fastforce
  then show ?thesis
  proof cases
    case 1
    then show ?thesis by (simp add: bndrymms_def bndrymms_lid_pass_frame bndrymms_side_pass_frame)
  next
    case 2
    with assms(1) have "i \<noteq> 0 \<and> i \<noteq> imax cfg - 1" by auto
    with 2 show ?thesis by (simp add: bndrymms_def bndrymms_lid_pass_frame bndrymms_side_pass_frame)
  next
    case 3
    with assms(2) have "j \<noteq> 0 \<and> j \<noteq> jmax cfg - 1" and "jmax cfg - 1 \<le> j" by auto
    then show ?thesis by (simp add: bndrymms_def bndrymms_lid_pass_frame bndrymms_side_pass_frame)
  next
    case 4
    then show ?thesis by (simp add: bndrymms_def bndrymms_lid_pass_frame bndrymms_side_pass_frame)
  qed
qed

text \<open>The side pass sees the same rows before and after one application.\<close>

lemma bndrymms_side_pass_stable:
  assumes "4 \<le> imax cfg" and "4 \<le> jmax cfg" and "1 \<le> j" and "j < jmax cfg - 1"
  shows "bndrymms_side_pass cfg (bndrymms cfg u) (i, j, k) = bndrymms_side_pass cfg u (i, j, k)"
proof -
  have pos: "0 < imax cfg" "0 < jmax cfg" using assms by auto
  have inner: "bndrymms cfg u (i', j, k') = u (i', j, k')"
    if "1 \<le> i'" "i' < imax cfg - 1" for i' k'
    using that assms(3,4) by (intro bndrymms_frame pos) (simp add: wall_cell_def)
  have in12: "bndrymms cfg u (1, j, 0) = u (1, j, 0)" "bndrymms cfg u (2, j, 0) = u (2, j, 0)"
    "bndrymms cfg u (imax cfg - 2, j, 0) = u (imax cfg - 2, j, 0)"
    "bndrymms cfg u (imax cfg - 3, j, 0) = u (imax cfg - 3, j, 0)"
    using assms(1) by (auto intro!: inner)
  have hi: "bndrymms cfg u (i', j, k) = u (i', j, k)" if "3 \<le> k" for i'
    using that by (intro bndrymms_frame pos) (simp add: wall_cell_def)
  have sp: "bndrymms_side_pass cfg w (i', j, k) = bndrymms_side_body cfg j w (i', j, k)" for w i'
    using assms(3,4) by (simp add: bndrymms_side_pass_cell)
  consider "i = 0" | "i = imax cfg - 1" | "i \<noteq> 0 \<and> i \<noteq> imax cfg - 1" by blast
  then show ?thesis
  proof cases
    case 1
    show ?thesis
      unfolding 1 sp bndrymms_side_body_left [OF assms(1)] in12
      by (simp add: hi)
  next
    case 2
    show ?thesis
      unfolding sp bndrymms_side_body_right [OF assms(1) 2] in12
      by (simp add: hi)
  next
    case 3
    have "\<not> wall_cell cfg (i, j, k)"
      using 3 assms(3,4) by (auto simp: wall_cell_def)
    then have "bndrymms cfg u (i, j, k) = u (i, j, k)"
      by (simp add: bndrymms_frame pos)
    with 3 show ?thesis by (simp add: bndrymms_side_pass_frame)
  qed
qed

lemma bndrymms_twice_cell:
  assumes "4 \<le> imax cfg" and "4 \<le> jmax cfg"
  shows "bndrymms cfg (bndrymms cfg u) (i, j, k) = bndrymms cfg u (i, j, k)"
proof -
  have pos: "0 < imax cfg" "0 < jmax cfg" using assms by auto
  have rows: "1 \<le> (1::nat)" "1 < jmax cfg - 1" "1 \<le> (2::nat)" "2 < jmax cfg - 1"
    "1 \<le> jmax cfg - 2" "jmax cfg - 2 < jmax cfg - 1" "1 \<le> jmax cfg - 3"
    "jmax cfg - 3 < jmax cfg - 1"
    using assms(2) by auto
  note st = bndrymms_side_pass_stable [OF assms]
  have stable: "bndrymms_side_pass cfg (bndrymms cfg u) (i, 1, 0) = bndrymms_side_pass cfg u (i, 1, 0)"
    "bndrymms_side_pass cfg (bndrymms cfg u) (i, 2, 0) = bndrymms_side_pass cfg u (i, 2, 0)"
    "bndrymms_side_pass cfg (bndrymms cfg u) (i, jmax cfg - 2, 0) = bndrymms_side_pass cfg u (i, jmax cfg - 2, 0)"
    "bndrymms_side_pass cfg (bndrymms cfg u) (i, jmax cfg - 3, 0) = bndrymms_side_pass cfg u (i, jmax cfg - 3, 0)"
    by (rule st; rule rows)+
  consider (mid) "1 \<le> j" "j < jmax cfg - 1" | (out) "imax cfg \<le> i \<or> jmax cfg \<le> j \<or> 3 \<le> k"
    | (bot) "j = 0" "i < imax cfg" "k < 3" | (top) "j = jmax cfg - 1" "i < imax cfg" "k < 3"
    by fastforce
  then show ?thesis
  proof cases
    case mid
    then have "bndrymms cfg w (i, j, k) = bndrymms_side_pass cfg w (i, j, k)" for w
      by (simp add: bndrymms_def bndrymms_lid_pass_frame)
    then show ?thesis using st [OF mid] by simp
  next
    case out
    then have "\<not> wall_cell cfg (i, j, k)" by (auto simp: wall_cell_def)
    then show ?thesis by (simp add: bndrymms_frame pos)
  next
    case bot
    have lp: "bndrymms cfg w (i, j, k) = bndrymms_lid_body cfg i (bndrymms_side_pass cfg w) (i, 0, k)" for w
      using bot by (simp add: bndrymms_def bndrymms_lid_pass_cell)
    have sf: "bndrymms_side_pass cfg w (i, 0, k) = w (i, 0, k)" for w
      by (simp add: bndrymms_side_pass_frame)
    show ?thesis
      unfolding lp bndrymms_lid_body_bottom [OF assms(2)] stable sf
      using bot(3) by simp
  next
    case top
    have lp: "bndrymms cfg w (i, j, k) = bndrymms_lid_body cfg i (bndrymms_side_pass cfg w) (i, j, k)" for w
      using top by (simp add: bndrymms_def bndrymms_lid_pass_cell)
    have sf: "bndrymms_side_pass cfg w (i, j, k) = w (i, j, k)" for w
      using top(1) by (simp add: bndrymms_side_pass_frame)
    show ?thesis
      unfolding lp bndrymms_lid_body_top [OF assms(2) top(1)] stable sf
      using top(3) by simp
  qed
qed

text \<open>
  C7, as the code has it. The left/right loop of \<^verbatim>\<open>bndry\<close> runs over every \<open>j\<close>, the
  corners included; the bottom/top loop runs over \<open>i = 1 .. imax-2\<close> and does not touch a
  corner. So the final value of each corner node is the one the left/right loop writes:
  zero velocity, and the pressure extrapolated along the wall row from the nodes
  \<open>1, 2\<close> (resp. \<open>imax-2, imax-3\<close>) of that row.
\<close>

theorem bndry_corner:
  assumes "4 \<le> imax cfg" and "0 < jmax cfg"
    and "i = 0 \<or> i = imax cfg - 1" and "j = 0 \<or> j = jmax cfg - 1"
  shows "bndry cfg u (i, j, k) = bndry_side_body cfg j u (i, j, k) \<and>
    bndry_lid_pass cfg v (i, j, k) = v (i, j, k) \<and>
    bndry cfg u (i, j, 1) = 0 \<and> bndry cfg u (i, j, 2) = 0 \<and>
    bndry cfg u (0, j, 0) = 2 * u (1, j, 0) - u (2, j, 0) \<and>
    bndry cfg u (imax cfg - 1, j, 0) = 2 * u (imax cfg - 2, j, 0) - u (imax cfg - 3, j, 0)"
proof -
  have jm: "j < jmax cfg" using assms(2,4) by auto
  have side: "bndry cfg u (i', j, k') = bndry_side_body cfg j u (i', j, k')"
    if "i' = 0 \<or> i' = imax cfg - 1" for i' k'
    by (rule bndry_on_side [OF that jm])
  have lid: "bndry_lid_pass cfg v (i, j, k) = v (i, j, k)"
    using assms(3) by (auto simp: bndry_lid_pass_frame)
  have right: "bndry_side_body cfg j u (imax cfg - 1, j, k') =
     (if k' = 0 then 2 * u (imax cfg - 2, j, 0) - u (imax cfg - 3, j, 0)
      else if k' < 3 then 0 else u (imax cfg - 1, j, k'))" for k'
    by (rule bndry_side_body_right [OF assms(1) refl])
  have vel: "bndry cfg u (i, j, 1) = 0 \<and> bndry cfg u (i, j, 2) = 0"
    using assms(3)
  proof
    assume "i = 0"
    then show ?thesis by (simp add: side bndry_side_body_left [OF assms(1)])
  next
    assume i: "i = imax cfg - 1"
    show ?thesis unfolding i side [OF disjI2 [OF refl]] right by simp
  qed
  have p0: "bndry cfg u (0, j, 0) = 2 * u (1, j, 0) - u (2, j, 0)"
    by (simp add: side bndry_side_body_left [OF assms(1)])
  have p1: "bndry cfg u (imax cfg - 1, j, 0) =
      2 * u (imax cfg - 2, j, 0) - u (imax cfg - 3, j, 0)"
    unfolding side [OF disjI2 [OF refl]] right by simp
  from side [OF assms(3)] lid vel p0 p1 show ?thesis by blast
qed

theorem bndry_corner_witness:
  "bndry cavity5 ramp (0, 4, 1) = bndry_side_body cavity5 4 ramp (0, 4, 1) \<and>
   bndry_lid_pass cavity5 ramp (0, 4, 1) = ramp (0, 4, 1) \<and>
   bndry cavity5 ramp (0, 4, 1) = 0 \<and> bndry cavity5 ramp (0, 4, 2) = 0 \<and>
   bndry cavity5 ramp (0, 4, 0) = 2 * ramp (1, 4, 0) - ramp (2, 4, 0) \<and>
   bndry cavity5 ramp (4, 4, 0) = 2 * ramp (3, 4, 0) - ramp (2, 4, 0)"
  using bndry_corner [of cavity5 0 4 ramp 1 ramp]
  by (simp add: cavity5_def shipped_def)

text \<open>
  C7 as stated fails: on the 5 by 5 grid the lid pass leaves the top-left corner as the
  side pass wrote it (x-velocity 0), whereas the body of the lid loop, run at \<open>i = 0\<close>,
  would store the lid velocity 1 there.
\<close>

theorem bndry_corner_counterexample:
  "bndry cavity5 ramp (0, 4, 1) = bndry_side_pass cavity5 ramp (0, 4, 1) \<and>
   bndry cavity5 ramp (0, 4, 1) = 0 \<and>
   bndry_lid_body cavity5 0 (bndry_side_pass cavity5 ramp) (0, 4, 1) = 1"
  by (simp add: bndry_def bndry_lid_pass_cell bndry_side_pass_cell bndry_side_body_def
      bndry_lid_body_def cavity5_def shipped_def Let_def)

text \<open>
  C8, as the code has it. \<^verbatim>\<open>bndrymms\<close> is idempotent. A second application of \<^verbatim>\<open>bndry\<close>
  reproduces every value of the first one except, possibly, the pressure of the four
  corner nodes: that pressure is extrapolated along the wall row from wall nodes which the
  same call rewrites afterwards.
\<close>

theorem boundary_appliers_twice:
  assumes "4 \<le> imax cfg" and "4 \<le> jmax cfg"
  shows "bndrymms cfg (bndrymms cfg u) = bndrymms cfg u \<and>
    (\<forall>i j k. \<not> (k = 0 \<and> (i = 0 \<or> i = imax cfg - 1) \<and> (j = 0 \<or> j = jmax cfg - 1)) \<longrightarrow>
       bndry cfg (bndry cfg u) (i, j, k) = bndry cfg u (i, j, k))"
proof -
  have "bndrymms cfg (bndrymms cfg u) p = bndrymms cfg u p" for p
    by (cases p) (simp add: bndrymms_twice_cell [OF assms])
  then have "bndrymms cfg (bndrymms cfg u) = bndrymms cfg u"
    by (simp add: fun_eq_iff)
  then show ?thesis
    using bndry_twice_cell [OF assms] by blast
qed

theorem boundary_appliers_twice_witness:
  "4 \<le> imax cavity5 \<and> 4 \<le> jmax cavity5 \<and>
   bndrymms cavity5 (bndrymms cavity5 spike) = bndrymms cavity5 spike \<and>
   bndry cavity5 (bndry cavity5 spike) (0, 1, 0) = bndry cavity5 spike (0, 1, 0)"
  using boundary_appliers_twice [of cavity5 spike]
  by (simp add: cavity5_def shipped_def)

text \<open>
  C8 as stated fails for \<^verbatim>\<open>bndry\<close>: on the 5 by 5 grid, for the field that is 1 at the
  bottom-wall pressure \<open>(1, 0)\<close> and 0 elsewhere, the pressure of the corner \<open>(0, 0)\<close> is 2
  after the first application and 0 after the second.
\<close>

theorem bndry_twice_counterexample:
  "bndry cavity5 spike (0, 0, 0) = 2 \<and> bndry cavity5 (bndry cavity5 spike) (0, 0, 0) = 0"
  by (simp add: bndry_def bndry_lid_pass_cell bndry_side_pass_cell bndry_side_body_def
      bndry_lid_body_def cavity5_def shipped_def Let_def spike_def)

section \<open>Time step\<close>

text \<open>
  A loop that stores a value in a cell and keeps it in a scalar ends with the scalar
  holding the value of the last iteration.
\<close>

lemma fold_last_assigned:
  "fold (\<lambda>x s. ((fst s)(x := g x), g x)) xs (d, m) =
     (fold (\<lambda>x d. d(x := g x)) xs d, if xs = [] then m else g (last xs))"
  by (induction xs arbitrary: d m) auto

lemma product_Nil_iff: "List.product xs ys = [] \<longleftrightarrow> xs = [] \<or> ys = []"
  by (induction xs) auto

lemma last_product:
  "xs \<noteq> [] \<Longrightarrow> ys \<noteq> [] \<Longrightarrow> last (List.product xs ys) = (last xs, last ys)"
  by (induction xs) (auto simp: last_map last_append product_Nil_iff)

lemma compute_time_step_snd:
  assumes "3 \<le> imax cfg" and "3 \<le> jmax cfg"
  shows "snd (compute_time_step cfg u dt dtmin) =
    cfl cfg * min (dtconv cfg u (imax cfg - 2) (jmax cfg - 2)) (dtvisc cfg)"
proof -
  let ?xs = "List.product [1..<imax cfg - 1] [1..<jmax cfg - 1]"
  have ne: "[1..<imax cfg - 1] \<noteq> []" "[1..<jmax cfg - 1] \<noteq> []"
    using assms by auto
  have "last [1..<imax cfg - 1] = imax cfg - 2" "last [1..<jmax cfg - 1] = jmax cfg - 2"
    using assms by (simp_all add: last_upt)
  then have l: "last ?xs = (imax cfg - 2, jmax cfg - 2)"
    unfolding last_product [OF ne] by simp
  have nex: "?xs \<noteq> []" using ne by (simp add: product_Nil_iff)
  have "compute_time_step cfg u dt dtmin =
    fold (\<lambda>x s. ((fst s)(x := case x of (i, j) \<Rightarrow> cfl cfg * min (dtconv cfg u i j) (dtvisc cfg)),
            case x of (i, j) \<Rightarrow> cfl cfg * min (dtconv cfg u i j) (dtvisc cfg))) ?xs (dt, dtmin)"
    unfolding compute_time_step_def fold_nested_product
    by (rule arg_cong [where f = "\<lambda>b. fold b ?xs (dt, dtmin)"])
       (auto simp: fun_eq_iff compute_time_step_body_def Let_def)
  then show ?thesis
    unfolding fold_last_assigned using nex l by simp
qed


lemma fold_assign_cell:
  "fold (\<lambda>x d. d(x := g x)) xs d p = (if p \<in> set xs then g p else d p)"
  by (induction xs arbitrary: d) auto

lemma compute_time_step_fst:
  "fst (compute_time_step cfg u dt dtmin) (i, j) =
    (if 1 \<le> i \<and> i < imax cfg - 1 \<and> 1 \<le> j \<and> j < jmax cfg - 1
     then cfl cfg * min (dtconv cfg u i j) (dtvisc cfg) else dt (i, j))"
proof -
  let ?xs = "List.product [1..<imax cfg - 1] [1..<jmax cfg - 1]"
  let ?g = "\<lambda>x. case x of (i, j) \<Rightarrow> cfl cfg * min (dtconv cfg u i j) (dtvisc cfg)"
  have "compute_time_step cfg u dt dtmin =
    fold (\<lambda>x s. ((fst s)(x := ?g x), ?g x)) ?xs (dt, dtmin)"
    unfolding compute_time_step_def fold_nested_product
    by (rule arg_cong [where f = "\<lambda>b. fold b ?xs (dt, dtmin)"])
       (auto simp: fun_eq_iff compute_time_step_body_def Let_def)
  then have "fst (compute_time_step cfg u dt dtmin) (i, j) =
      fold (\<lambda>x d. d(x := ?g x)) ?xs dt (i, j)"
    unfolding fold_last_assigned by simp
  then show ?thesis
    unfolding fold_assign_cell by auto
qed


text \<open>
  On the 5 by 5 grid with the shipped constants, for a field at rest except for velocity
  \<open>(1, 1)\<close> at node \<open>(1, 1)\<close>: the scalar returned is \<open>1/160\<close>, the step of the last node
  \<open>(3, 3)\<close>, while the step stored for node \<open>(1, 1)\<close> is the smaller \<open>1/200\<close>.
\<close>

lemma sqrt_9: "sqrt 9 = 3"
  by (rule real_sqrt_unique) simp_all

lemma dtvisc_cavity5: "dtvisc cavity5 = 1 / 128"
  by (simp add: dtvisc_def dx_def dy_def rmu_def rhoinv_def rlength_def cavity5_def shipped_def)

lemma dtconv_gust_11: "dtconv cavity5 gust 1 1 = 1 / 160"
  by (simp add: dtconv_def compute_time_step_beta2_def pow2_def gust_def Let_def
      dx_def dy_def cavity5_def shipped_def sqrt_9)

lemma dtconv_gust_33: "1 / 128 \<le> dtconv cavity5 gust 3 3"
proof -
  have "sqrt (2 / 5) \<le> sqrt 1" by (rule real_sqrt_le_mono) simp
  then have s: "sqrt (2 / 5) \<le> 1" by simp
  have p: "0 < sqrt (2 / 5)" by simp
  have "dtconv cavity5 gust 3 3 = 1 / (40 * sqrt (2 / 5))"
    by (simp add: dtconv_def compute_time_step_beta2_def pow2_def gust_def Let_def
      dx_def dy_def cavity5_def shipped_def)
  moreover have "40 * sqrt (2 / 5) \<le> 128" using s by linarith
  then have "1 / 128 \<le> 1 / (40 * sqrt (2 / 5))"
    using p by (intro divide_left_mono) auto
  ultimately show ?thesis by simp
qed

lemma compute_time_step_not_minimum:
  "snd (compute_time_step cavity5 gust (\<lambda>p. 0) 0) = 1 / 160 \<and>
   fst (compute_time_step cavity5 gust (\<lambda>p. 0) 0) (1, 1) = 1 / 200"
proof -
  have i: "3 \<le> imax cavity5" "3 \<le> jmax cavity5" "imax cavity5 - 2 = 3" "jmax cavity5 - 2 = 3"
    "cfl cavity5 = 4 / 5" "1 < imax cavity5 - 1" "1 < jmax cavity5 - 1"
    by (simp_all add: cavity5_def shipped_def)
  have m: "min (dtconv cavity5 gust 3 3) (1 / 128) = 1 / 128"
    using dtconv_gust_33 by simp
  show ?thesis
    unfolding compute_time_step_snd [OF i(1,2)] compute_time_step_fst i(3,4,5) dtvisc_cavity5
      dtconv_gust_11 m
    using i(6,7) by simp
qed

text \<open>
  C6. On a grid with an interior node, the scalar \<^verbatim>\<open>dtmin\<close> that
  \<^verbatim>\<open>compute_time_step\<close> returns is \<open>cfl * min(dtconv, dtvisc)\<close> evaluated at
  \<open>(imax-2, jmax-2)\<close>, the last node the loop nest visits; the main loop stores this value
  and adds it to \<^verbatim>\<open>rtime\<close>. It is the value of one node, not a minimum over the grid
  (see \<open>compute_time_step_not_minimum\<close>).
\<close>

theorem compute_time_step_dtmin:
  assumes "3 \<le> imax cfg" and "3 \<le> jmax cfg"
  shows "snd (compute_time_step cfg u dt dtmin) =
      cfl cfg * min (dtconv cfg u (imax cfg - 2) (jmax cfg - 2)) (dtvisc cfg) \<and>
    s_dtmin (main_loop_body iterationStep set_boundary_conditions cfg st) =
      cfl cfg * min (dtconv cfg (s_u st) (imax cfg - 2) (jmax cfg - 2)) (dtvisc cfg) \<and>
    s_rtime (main_loop_body iterationStep set_boundary_conditions cfg st) =
      s_rtime st + cfl cfg * min (dtconv cfg (s_u st) (imax cfg - 2) (jmax cfg - 2)) (dtvisc cfg)"
proof -
  note a = compute_time_step_snd [OF assms]
  obtain d where b: "compute_time_step cfg (s_u st) (s_dt st) (s_dtmin st) =
     (d, cfl cfg * min (dtconv cfg (s_u st) (imax cfg - 2) (jmax cfg - 2)) (dtvisc cfg))"
    using a [of "s_u st" "s_dt st" "s_dtmin st"]
    by (cases "compute_time_step cfg (s_u st) (s_dt st) (s_dtmin st)") simp
  show ?thesis
    unfolding main_loop_body_def b
    by (simp add: a Let_def split: prod.splits)
qed


theorem compute_time_step_dtmin_witness:
  "3 \<le> imax cavity5 \<and> 3 \<le> jmax cavity5 \<and>
   snd (compute_time_step cavity5 gust (\<lambda>p. 0) 0) =
     cfl cavity5 * min (dtconv cavity5 gust 3 3) (dtvisc cavity5)"
  using compute_time_step_dtmin [of cavity5 gust "\<lambda>p. 0" 0]
  by (simp add: cavity5_def shipped_def)

section \<open>Convergence monitor\<close>

text \<open>
  The three nested loops add, for each equation \<open>k\<close>, the squares of the local residuals
  of all interior nodes.
\<close>

lemma upt_0_3: "[0..<3] = [0, 1, 2]"
  by (simp add: upt_rec)

lemma local_resid_previous:
  "k < 3 \<Longrightarrow> local_resid cfg u uold dt i j k previous = local_resid cfg u uold dt i j k 0"
  by (auto simp: local_resid_def nat_less_3)

lemma convergence_node:
  "fst (fold (\<lambda>k. convergence_body cfg u uold dt i j k) [0..<3] (res, r)) =
     (\<lambda>k. if k < 3 then res k + (local_resid cfg u uold dt i j k 0)\<^sup>2 else res k)"
proof -
  have "fst (fold (\<lambda>k. convergence_body cfg u uold dt i j k) [0, 1, 2] (res, r)) k =
     (if k < 3 then res k + (local_resid cfg u uold dt i j k 0)\<^sup>2 else res k)" for k
  proof -
    consider "k = 0" | "k = 1" | "k = 2" | "3 \<le> k" by linarith
    then show ?thesis
      by cases
        (simp_all add: convergence_body_def local_resid_def Let_def pow2_def power2_eq_square)
  qed
  then show ?thesis
    unfolding upt_0_3 by (simp add: fun_eq_iff)
qed

lemma fold_fst_accumulate:
  assumes "\<And>x res r. fst (body x (res, r)) = (\<lambda>k. if k < 3 then res k + a x k else res k)"
  shows "fst (fold body xs (res, r)) =
     (\<lambda>k. if k < 3 then res k + sum_list (map (\<lambda>x. a x k) xs) else res k)"
proof (induction xs arbitrary: res r)
  case Nil
  show ?case by (simp add: fun_eq_iff)
next
  case (Cons x xs)
  obtain res' r' where b: "body x (res, r) = (res', r')" by (cases "body x (res, r)")
  with assms [of x res r] have res': "res' = (\<lambda>k. if k < 3 then res k + a x k else res k)"
    by simp
  show ?case
    by (simp add: b Cons.IH res' fun_eq_iff add.assoc)
qed

lemma sum_list_product:
  "sum_list (map f (List.product xs ys)) =
     sum_list (map (\<lambda>i. sum_list (map (\<lambda>j. f (i, j)) ys)) xs)"
  by (induction xs) (simp_all add: comp_def)

lemma convergence_sums:
  "fst (fold (\<lambda>i. fold (\<lambda>j. fold (\<lambda>k. convergence_body cfg u uold dt i j k) [0..<3])
                   [1..<jmax cfg - 1]) [1..<imax cfg - 1] (\<lambda>k. 0, 0)) =
   (\<lambda>k. if k < 3
        then (\<Sum>i = 1..<imax cfg - 1. \<Sum>j = 1..<jmax cfg - 1.
                (local_resid cfg u uold dt i j k 0)\<^sup>2)
        else 0)"
proof -
  let ?xs = "List.product [1..<imax cfg - 1] [1..<jmax cfg - 1]"
  let ?body = "\<lambda>(i, j). fold (\<lambda>k. convergence_body cfg u uold dt i j k) [0..<3]"
  let ?a = "\<lambda>x k. case x of (i, j) \<Rightarrow> (local_resid cfg u uold dt i j k 0)\<^sup>2"
  have "fst (?body x (res, r)) = (\<lambda>k. if k < 3 then res k + ?a x k else res k)" for x res r
  proof (cases x)
    case (Pair i j)
    show ?thesis unfolding Pair prod.case by (rule convergence_node)
  qed
  then have 1: "fst (fold ?body ?xs (\<lambda>k. 0, 0)) =
      (\<lambda>k. if k < 3 then 0 + sum_list (map (\<lambda>x. ?a x k) ?xs) else 0)"
    by (rule fold_fst_accumulate)
  have 2: "sum_list (map (\<lambda>x. ?a x k) ?xs) =
      (\<Sum>i = 1..<imax cfg - 1. \<Sum>j = 1..<jmax cfg - 1. (local_resid cfg u uold dt i j k 0)\<^sup>2)" for k
    unfolding sum_list_product prod.case interv_sum_list_conv_sum_set_nat by simp
  show ?thesis
    unfolding fold_nested_product 1 2 add_0 ..
qed



text \<open>
  C4. For each equation \<open>k = 0, 1, 2\<close> the monitor returns
  \<open>res[k] = sqrt (\<Sum> r\<^sup>2 / (imax * jmax))\<close>, the sum ranging over the interior nodes and
  \<open>r\<close> being the local residual of that equation; the convergence ratio is the largest of
  the three divided by \<open>sqrt (resinit[0]\<^sup>2 / (imax * jmax))\<close>, so that two sets of
  initial residuals with the same first entry give the same ratio.
\<close>

theorem check_iterative_convergence_norms:
  assumes "k < 3"
  shows "fst (check_iterative_convergence cfg u uold dt resinit) k =
      sqrt ((\<Sum>i = 1..<imax cfg - 1. \<Sum>j = 1..<jmax cfg - 1.
               (local_resid cfg u uold dt i j k 0)\<^sup>2) / real (imax cfg * jmax cfg)) \<and>
    snd (check_iterative_convergence cfg u uold dt resinit) =
      max (fst (check_iterative_convergence cfg u uold dt resinit) 0)
        (max (fst (check_iterative_convergence cfg u uold dt resinit) 1)
             (fst (check_iterative_convergence cfg u uold dt resinit) 2))
      / sqrt ((resinit 0)\<^sup>2 / real (imax cfg * jmax cfg)) \<and>
    (resinit' 0 = resinit 0 \<longrightarrow>
      snd (check_iterative_convergence cfg u uold dt resinit') =
      snd (check_iterative_convergence cfg u uold dt resinit))"
proof -
  let ?acc = "fold (\<lambda>i. fold (\<lambda>j. fold (\<lambda>k. convergence_body cfg u uold dt i j k) [0..<3])
                   [1..<jmax cfg - 1]) [1..<imax cfg - 1] (\<lambda>k. 0, 0)"
  obtain res r where acc: "?acc = (res, r)" by (cases ?acc)
  have res: "res = (\<lambda>k. if k < 3
        then (\<Sum>i = 1..<imax cfg - 1. \<Sum>j = 1..<jmax cfg - 1.
                (local_resid cfg u uold dt i j k 0)\<^sup>2)
        else 0)"
    using convergence_sums [of cfg u uold dt] acc by simp
  have unf: "check_iterative_convergence cfg u uold dt ri =
    (let res = res(0 := sqrt (res 0 / real (imax cfg * jmax cfg)));
         res = res(1 := sqrt (res 1 / real (imax cfg * jmax cfg)));
         res = res(2 := sqrt (res 2 / real (imax cfg * jmax cfg)));
         L2Norminit = sqrt (pow2 (ri 0) / real (imax cfg * jmax cfg));
         conv = max (res 0) (max (res 1) (res 2)) / L2Norminit
     in (res, conv))" for ri
    unfolding check_iterative_convergence_def acc by simp
  have k: "k = 0 \<or> k = 1 \<or> k = 2" using assms by auto
  have 1: "fst (check_iterative_convergence cfg u uold dt resinit) k =
      sqrt (res k / real (imax cfg * jmax cfg))"
    using k unfolding unf by (auto simp: Let_def)
  have 2: "snd (check_iterative_convergence cfg u uold dt resinit) =
      max (fst (check_iterative_convergence cfg u uold dt resinit) 0)
        (max (fst (check_iterative_convergence cfg u uold dt resinit) 1)
             (fst (check_iterative_convergence cfg u uold dt resinit) 2))
      / sqrt ((resinit 0)\<^sup>2 / real (imax cfg * jmax cfg))"
    unfolding unf by (simp add: Let_def pow2_def power2_eq_square)
  have 3: "snd (check_iterative_convergence cfg u uold dt resinit') =
      snd (check_iterative_convergence cfg u uold dt resinit)" if "resinit' 0 = resinit 0"
    unfolding unf by (simp add: Let_def that)
  from 1 2 3 show ?thesis
    using assms by (simp add: res)
qed


theorem check_iterative_convergence_norms_witness:
  "(1::nat) < 3 \<and>
   fst (check_iterative_convergence cavity3 gust (\<lambda>p. 0) (\<lambda>p. 1) (\<lambda>k. 1)) 1 = 1 / 3 \<and>
   snd (check_iterative_convergence cavity3 gust (\<lambda>p. 0) (\<lambda>p. 1) (\<lambda>k. if k = 0 then 1 else 7)) =
   snd (check_iterative_convergence cavity3 gust (\<lambda>p. 0) (\<lambda>p. 1) (\<lambda>k. 1))"
  using check_iterative_convergence_norms
    [of 1 cavity3 gust "\<lambda>p. 0" "\<lambda>p. 1" "\<lambda>k. 1" "\<lambda>k. if k = 0 then 1 else 7"]
  by (simp add: cavity3_def shipped_def local_resid_def gust_def real_sqrt_divide sqrt_9)

section \<open>Artificial viscosity\<close>

text \<open>
  The stencil loop stores one value per node and array; the two extrapolation loop nests
  store into \<^verbatim>\<open>viscx\<close> only, and only in their \<open>i == 1\<close> and \<open>j == 1\<close> branches: the
  tests \<open>i == imax-1\<close> and \<open>j == jmax-1\<close> never hold for \<open>i\<close> in \<open>{1, imax-2}\<close> and \<open>j\<close> in
  \<open>{1, jmax-2}\<close>.
\<close>

lemma fold_pair_split:
  assumes "\<And>x a b. body x (a, b) = (f x a, g x b)"
  shows "fold body xs (a, b) = (fold f xs a, fold g xs b)"
  by (induction xs arbitrary: a b) (simp_all add: assms)

lemma fold_snd_kept:
  assumes "\<And>x s. snd (body x s) = snd s"
  shows "fold body xs (a, b) = (fold (\<lambda>x a. fst (body x (a, b))) xs a, b)"
proof (induction xs arbitrary: a)
  case Nil
  show ?case by simp
next
  case (Cons x xs)
  obtain a' where b: "body x (a, b) = (a', b)"
    using assms [of x "(a, b)"] by (cases "body x (a, b)") simp
  show ?case by (simp add: b Cons.IH)
qed

lemma fold_unchanged:
  assumes "\<And>x s. body x s = s"
  shows "fold body xs s = s"
  by (induction xs) (simp_all add: assms)

lemma cav_stencil_body_split:
  "cav_stencil_body cfg u j i (a, b) =
     (a((i, j) := fst (cav_stencil_body cfg u j i (vx, vy)) (i, j)),
      b((i, j) := snd (cav_stencil_body cfg u j i (vx, vy)) (i, j)))"
  by (simp add: cav_stencil_body_def Let_def)

lemma cav_stencil_pass_cell:
  "fst (cav_stencil_pass cfg u (vx, vy)) (i, j) =
     (if 2 \<le> i \<and> i < imax cfg - 2 \<and> 2 \<le> j \<and> j < jmax cfg - 2
      then fst (cav_stencil_body cfg u j i (vx, vy)) (i, j) else vx (i, j))"
  "snd (cav_stencil_pass cfg u (vx, vy)) (i, j) =
     (if 2 \<le> i \<and> i < imax cfg - 2 \<and> 2 \<le> j \<and> j < jmax cfg - 2
      then snd (cav_stencil_body cfg u j i (vx, vy)) (i, j) else vy (i, j))"
proof -
  let ?xs = "List.product [2..<jmax cfg - 2] [2..<imax cfg - 2]"
  let ?f = "\<lambda>x a. a(prod.swap x := fst (cav_stencil_body cfg u (fst x) (snd x) (vx, vy)) (prod.swap x))"
  let ?g = "\<lambda>x b. b(prod.swap x := snd (cav_stencil_body cfg u (fst x) (snd x) (vx, vy)) (prod.swap x))"
  have b: "(case x of (j, i) \<Rightarrow> cav_stencil_body cfg u j i) (a, b) = (?f x a, ?g x b)" for x a b
    by (cases x) (simp add: cav_stencil_body_split [of cfg u _ _ a b vx vy])
  have p: "cav_stencil_pass cfg u (vx, vy) = (fold ?f ?xs vx, fold ?g ?xs vy)"
    unfolding cav_stencil_pass_def fold_nested_product by (rule fold_pair_split [where f = ?f and g = ?g]) (rule b)
  have d: "distinct ?xs" by (simp add: distinct_product)
  have 1: "fold ?f ?xs vx (i, j) = (if prod.swap (i, j) \<in> set ?xs
      then ?f (prod.swap (i, j)) vx (i, j) else vx (i, j))"
    by (rule fold_row_local [where row = prod.swap, OF _ _ d]) auto
  have 2: "fold ?g ?xs vy (i, j) = (if prod.swap (i, j) \<in> set ?xs
      then ?g (prod.swap (i, j)) vy (i, j) else vy (i, j))"
    by (rule fold_row_local [where row = prod.swap, OF _ _ d]) auto
  show "fst (cav_stencil_pass cfg u (vx, vy)) (i, j) =
     (if 2 \<le> i \<and> i < imax cfg - 2 \<and> 2 \<le> j \<and> j < jmax cfg - 2
      then fst (cav_stencil_body cfg u j i (vx, vy)) (i, j) else vx (i, j))"
    unfolding p fst_conv 1 by auto
  show "snd (cav_stencil_pass cfg u (vx, vy)) (i, j) =
     (if 2 \<le> i \<and> i < imax cfg - 2 \<and> 2 \<le> j \<and> j < jmax cfg - 2
      then snd (cav_stencil_body cfg u j i (vx, vy)) (i, j) else vy (i, j))"
    unfolding p snd_conv 2 by auto
qed


lemma cav_sides_body_dead:
  "i \<noteq> 1 \<Longrightarrow> i \<noteq> imax cfg - 1 \<Longrightarrow> cav_sides_body cfg i j s = s"
  by (cases s) (simp add: cav_sides_body_def Let_def)

lemma cav_sides_body_left:
  "3 \<le> imax cfg \<Longrightarrow> cav_sides_body cfg 1 j (vx, vy) =
     (vx((1, j) := vx (2, j) + ((vx (3, j) - vx (2, j)) / dx cfg) * dx cfg), vy)"
  by (auto simp: cav_sides_body_def Let_def numeral_2_eq_2 numeral_3_eq_3)

lemma cav_sides_pass_cell:
  assumes "4 \<le> imax cfg"
  shows "fst (cav_sides_pass cfg (vx, vy)) (i, j) =
     (if i = 1 \<and> 1 \<le> j \<and> j < jmax cfg - 1
      then vx (2, j) + ((vx (3, j) - vx (2, j)) / dx cfg) * dx cfg else vx (i, j))"
    and "snd (cav_sides_pass cfg (vx, vy)) = vy"
proof -
  let ?f = "\<lambda>j a. a((1, j) := a (2, j) + ((a (3, j) - a (2, j)) / dx cfg) * dx cfg)"
  have 3: "3 \<le> imax cfg" using assms by simp
  have dead: "fold (cav_sides_body cfg (imax cfg - 2)) [1..<jmax cfg - 1] s = s" for s
    using assms by (intro fold_unchanged cav_sides_body_dead) auto
  have live: "fold (cav_sides_body cfg 1) [1..<jmax cfg - 1] (vx, vy) =
      (fold ?f [1..<jmax cfg - 1] vx, vy)"
  proof -
    have "fold (cav_sides_body cfg 1) [1..<jmax cfg - 1] (vx, vy) =
      (fold (\<lambda>x a. fst (cav_sides_body cfg 1 x (a, vy))) [1..<jmax cfg - 1] vx, vy)"
      by (rule fold_snd_kept) (simp add: cav_sides_body_def Let_def split: prod.splits)
    then show ?thesis unfolding cav_sides_body_left [OF 3] fst_conv .
  qed
  have p: "cav_sides_pass cfg (vx, vy) = (fold ?f [1..<jmax cfg - 1] vx, vy)"
    unfolding cav_sides_pass_def fold_simps live dead ..
  have c: "fold ?f [1..<jmax cfg - 1] vx (i, j) =
     (if snd (i, j) \<in> set [1..<jmax cfg - 1] then ?f (snd (i, j)) vx (i, j) else vx (i, j))"
    by (rule fold_row_local [where row = snd]) auto
  show "fst (cav_sides_pass cfg (vx, vy)) (i, j) =
     (if i = 1 \<and> 1 \<le> j \<and> j < jmax cfg - 1
      then vx (2, j) + ((vx (3, j) - vx (2, j)) / dx cfg) * dx cfg else vx (i, j))"
    unfolding p fst_conv c by auto
  show "snd (cav_sides_pass cfg (vx, vy)) = vy"
    unfolding p by simp
qed

lemma cav_top_bottom_body_dead:
  "j \<noteq> 1 \<Longrightarrow> j \<noteq> jmax cfg - 1 \<Longrightarrow> cav_top_bottom_body cfg j i s = s"
  by (cases s) (simp add: cav_top_bottom_body_def Let_def)

lemma cav_top_bottom_body_bottom:
  "3 \<le> jmax cfg \<Longrightarrow> cav_top_bottom_body cfg 1 i (vx, vy) =
     (vx((i, 1) := vy (i, 2) + ((vy (i, 3) - vy (i, 2)) / dy cfg) * dy cfg), vy)"
  by (auto simp: cav_top_bottom_body_def Let_def numeral_2_eq_2 numeral_3_eq_3)

lemma cav_top_bottom_pass_cell:
  assumes "4 \<le> jmax cfg"
  shows "fst (cav_top_bottom_pass cfg (vx, vy)) (i, j) =
     (if j = 1 \<and> 1 \<le> i \<and> i < imax cfg - 1
      then vy (i, 2) + ((vy (i, 3) - vy (i, 2)) / dy cfg) * dy cfg else vx (i, j))"
    and "snd (cav_top_bottom_pass cfg (vx, vy)) = vy"
proof -
  let ?f = "\<lambda>i a. a((i, 1) := vy (i, 2) + ((vy (i, 3) - vy (i, 2)) / dy cfg) * dy cfg)"
  have 3: "3 \<le> jmax cfg" using assms by simp
  have dead: "fold (cav_top_bottom_body cfg (jmax cfg - 2)) [1..<imax cfg - 1] s = s" for s
    using assms by (intro fold_unchanged cav_top_bottom_body_dead) auto
  have live: "fold (cav_top_bottom_body cfg 1) [1..<imax cfg - 1] (vx, vy) =
      (fold ?f [1..<imax cfg - 1] vx, vy)"
  proof -
    have "fold (cav_top_bottom_body cfg 1) [1..<imax cfg - 1] (vx, vy) =
      (fold (\<lambda>x a. fst (cav_top_bottom_body cfg 1 x (a, vy))) [1..<imax cfg - 1] vx, vy)"
      by (rule fold_snd_kept) (simp add: cav_top_bottom_body_def Let_def split: prod.splits)
    then show ?thesis unfolding cav_top_bottom_body_bottom [OF 3] fst_conv .
  qed
  have p: "cav_top_bottom_pass cfg (vx, vy) = (fold ?f [1..<imax cfg - 1] vx, vy)"
    unfolding cav_top_bottom_pass_def fold_simps live dead ..
  have c: "fold ?f [1..<imax cfg - 1] vx (i, j) =
     (if fst (i, j) \<in> set [1..<imax cfg - 1] then ?f (fst (i, j)) vx (i, j) else vx (i, j))"
    by (rule fold_row_local [where row = fst]) auto
  show "fst (cav_top_bottom_pass cfg (vx, vy)) (i, j) =
     (if j = 1 \<and> 1 \<le> i \<and> i < imax cfg - 1
      then vy (i, 2) + ((vy (i, 3) - vy (i, 2)) / dy cfg) * dy cfg else vx (i, j))"
    unfolding p fst_conv c by auto
  show "snd (cav_top_bottom_pass cfg (vx, vy)) = vy"
    unfolding p by simp
qed


lemma Compute_Artificial_Viscosity_cell:
  assumes "4 \<le> imax cfg" and "4 \<le> jmax cfg"
  shows "snd (Compute_Artificial_Viscosity cfg u (vx, vy)) (i, j) =
     (if 2 \<le> i \<and> i < imax cfg - 2 \<and> 2 \<le> j \<and> j < jmax cfg - 2
      then snd (cav_stencil_body cfg u j i (vx, vy)) (i, j) else vy (i, j))"
    and "fst (Compute_Artificial_Viscosity cfg u (vx, vy)) (i, j) =
     (if j = 1 \<and> 1 \<le> i \<and> i < imax cfg - 1
      then snd (cav_stencil_pass cfg u (vx, vy)) (i, 2)
           + ((snd (cav_stencil_pass cfg u (vx, vy)) (i, 3)
               - snd (cav_stencil_pass cfg u (vx, vy)) (i, 2)) / dy cfg) * dy cfg
      else if i = 1 \<and> 1 \<le> j \<and> j < jmax cfg - 1
      then fst (cav_stencil_pass cfg u (vx, vy)) (2, j)
           + ((fst (cav_stencil_pass cfg u (vx, vy)) (3, j)
               - fst (cav_stencil_pass cfg u (vx, vy)) (2, j)) / dx cfg) * dx cfg
      else fst (cav_stencil_pass cfg u (vx, vy)) (i, j))"
proof -
  obtain a b where st: "cav_stencil_pass cfg u (vx, vy) = (a, b)"
    by (cases "cav_stencil_pass cfg u (vx, vy)")
  obtain a' b' where sd: "cav_sides_pass cfg (a, b) = (a', b')"
    by (cases "cav_sides_pass cfg (a, b)")
  have b': "b' = b" using cav_sides_pass_cell(2) [OF assms(1), of a b] sd by simp
  have a': "a' (i, j) = (if i = 1 \<and> 1 \<le> j \<and> j < jmax cfg - 1
      then a (2, j) + ((a (3, j) - a (2, j)) / dx cfg) * dx cfg else a (i, j))" for i j
    using cav_sides_pass_cell(1) [OF assms(1), of a b i j] sd by simp
  have c: "Compute_Artificial_Viscosity cfg u (vx, vy) = cav_top_bottom_pass cfg (a', b)"
    unfolding Compute_Artificial_Viscosity_def st sd b' ..
  show "snd (Compute_Artificial_Viscosity cfg u (vx, vy)) (i, j) =
     (if 2 \<le> i \<and> i < imax cfg - 2 \<and> 2 \<le> j \<and> j < jmax cfg - 2
      then snd (cav_stencil_body cfg u j i (vx, vy)) (i, j) else vy (i, j))"
    unfolding c cav_top_bottom_pass_cell(2) [OF assms(2)]
    using cav_stencil_pass_cell(2) [of cfg u vx vy i j] st by simp
  show "fst (Compute_Artificial_Viscosity cfg u (vx, vy)) (i, j) =
     (if j = 1 \<and> 1 \<le> i \<and> i < imax cfg - 1
      then snd (cav_stencil_pass cfg u (vx, vy)) (i, 2)
           + ((snd (cav_stencil_pass cfg u (vx, vy)) (i, 3)
               - snd (cav_stencil_pass cfg u (vx, vy)) (i, 2)) / dy cfg) * dy cfg
      else if i = 1 \<and> 1 \<le> j \<and> j < jmax cfg - 1
      then fst (cav_stencil_pass cfg u (vx, vy)) (2, j)
           + ((fst (cav_stencil_pass cfg u (vx, vy)) (3, j)
               - fst (cav_stencil_pass cfg u (vx, vy)) (2, j)) / dx cfg) * dx cfg
      else fst (cav_stencil_pass cfg u (vx, vy)) (i, j))"
    unfolding c cav_top_bottom_pass_cell(1) [OF assms(2)] st fst_conv snd_conv a' ..
qed

lemma sqrt_25: "sqrt 25 = 5"
  by (rule real_sqrt_unique) simp_all

lemma cav_stencil_wave:
  "fst (cav_stencil_body cavity7 wave j i s) (i, j) =
     - (7 / 2) * (1 / 100) * ((wave (i + 2, j, 0) - 4 * wave (i + 1, j, 0) + 6 * wave (i, j, 0)
         - 4 * wave (i - 1, j, 0) + wave (i - 2, j, 0)) * 120) / 5"
  "snd (cav_stencil_body cavity7 wave j i s) (i, j) =
     - 3 * (1 / 100) * ((wave (i, j + 2, 0) - 4 * wave (i, j + 1, 0) + 6 * wave (i, j, 0)
         - 4 * wave (i, j - 1, 0) + wave (i, j - 2, 0)) * 120) / 5"
  by (cases s; simp add: cav_stencil_body_def Let_def pow2_def wave_def cavity7_def shipped_def
      dx_def dy_def sqrt_25)+


lemma cavity7_size:
  "4 \<le> imax cavity7" "4 \<le> jmax cavity7" "imax cavity7 = 7" "jmax cavity7 = 7"
  "dx cavity7 = 1 / 120" "dy cavity7 = 1 / 120"
  by (simp_all add: cavity7_def shipped_def dx_def dy_def)

lemma stencil_pass_wave:
  "fst (cav_stencil_pass cavity7 wave (\<lambda>p. 0, \<lambda>p. 0)) (2, 3) = - 1008 / 5"
  "fst (cav_stencil_pass cavity7 wave (\<lambda>p. 0, \<lambda>p. 0)) (3, 3) = - 1512 / 5"
  "fst (cav_stencil_pass cavity7 wave (\<lambda>p. 0, \<lambda>p. 0)) (5, 3) = 0"
  "snd (cav_stencil_pass cavity7 wave (\<lambda>p. 0, \<lambda>p. 0)) (2, 3) = - 1296 / 5"
  "snd (cav_stencil_pass cavity7 wave (\<lambda>p. 0, \<lambda>p. 0)) (3, 3) = - 1296 / 5"
  "snd (cav_stencil_pass cavity7 wave (\<lambda>p. 0, \<lambda>p. 0)) (3, 2) = - 864 / 5"
  by (simp_all add: cav_stencil_pass_cell cavity7_size cav_stencil_wave)
     (simp_all add: wave_def)


text \<open>
  C3, run on the 7 by 7 grid with the shipped constants, for the field with velocity
  \<open>(2, 1)\<close> everywhere and pressure \<open>i\<^sup>5 + j\<^sup>5\<close>, both damping arrays being 0 before the
  call. On the stencil nodes \<open>Vx = -100.8 i\<close> and \<open>Vy = -86.4 j\<close>. Linear extrapolation
  from the two nearest stencil values would give \<open>Vx(1,3) = -504/5\<close>, \<open>Vx(5,3) = -504\<close>,
  \<open>Vx(3,1) = -1512/5\<close>, \<open>Vy(1,3) = -1296/5\<close> and \<open>Vy(3,1) = -432/5\<close>. The code leaves
  \<open>Vx(5,3)\<close>, \<open>Vy(1,3)\<close> and \<open>Vy(3,1)\<close> at their old value 0, copies \<open>Vx(3,3)\<close> into
  \<open>Vx(1,3)\<close>, and stores the value \<open>Vy(3,3)\<close> of the other array in \<open>Vx(3,1)\<close>.
\<close>

theorem artificial_viscosity_near_boundary:
  "fst (Compute_Artificial_Viscosity cavity7 wave (\<lambda>p. 0, \<lambda>p. 0)) (2, 3) = - 1008 / 5 \<and>
   fst (Compute_Artificial_Viscosity cavity7 wave (\<lambda>p. 0, \<lambda>p. 0)) (3, 3) = - 1512 / 5 \<and>
   fst (Compute_Artificial_Viscosity cavity7 wave (\<lambda>p. 0, \<lambda>p. 0)) (1, 3) = - 1512 / 5 \<and>
   fst (Compute_Artificial_Viscosity cavity7 wave (\<lambda>p. 0, \<lambda>p. 0)) (5, 3) = 0 \<and>
   fst (Compute_Artificial_Viscosity cavity7 wave (\<lambda>p. 0, \<lambda>p. 0)) (3, 1) = - 1296 / 5 \<and>
   snd (Compute_Artificial_Viscosity cavity7 wave (\<lambda>p. 0, \<lambda>p. 0)) (2, 3) = - 1296 / 5 \<and>
   snd (Compute_Artificial_Viscosity cavity7 wave (\<lambda>p. 0, \<lambda>p. 0)) (3, 3) = - 1296 / 5 \<and>
   snd (Compute_Artificial_Viscosity cavity7 wave (\<lambda>p. 0, \<lambda>p. 0)) (3, 2) = - 864 / 5 \<and>
   snd (Compute_Artificial_Viscosity cavity7 wave (\<lambda>p. 0, \<lambda>p. 0)) (1, 3) = 0 \<and>
   snd (Compute_Artificial_Viscosity cavity7 wave (\<lambda>p. 0, \<lambda>p. 0)) (3, 1) = 0"
proof -
  note c = Compute_Artificial_Viscosity_cell [OF cavity7_size(1,2)]
  have vy: "snd (Compute_Artificial_Viscosity cavity7 wave (\<lambda>p. 0, \<lambda>p. 0)) (i, j) =
      snd (cav_stencil_pass cavity7 wave (\<lambda>p. 0, \<lambda>p. 0)) (i, j)" for i j
    unfolding c(1) cav_stencil_pass_cell(2) ..
  have 1: "fst (Compute_Artificial_Viscosity cavity7 wave (\<lambda>p. 0, \<lambda>p. 0)) (2, 3) = - 1008 / 5"
    unfolding c(2) by (simp add: cavity7_size stencil_pass_wave)
  have 2: "fst (Compute_Artificial_Viscosity cavity7 wave (\<lambda>p. 0, \<lambda>p. 0)) (3, 3) = - 1512 / 5"
    unfolding c(2) by (simp add: cavity7_size stencil_pass_wave)
  have 3: "fst (Compute_Artificial_Viscosity cavity7 wave (\<lambda>p. 0, \<lambda>p. 0)) (1, 3) = - 1512 / 5"
    unfolding c(2) by (simp add: cavity7_size stencil_pass_wave)
  have 4: "fst (Compute_Artificial_Viscosity cavity7 wave (\<lambda>p. 0, \<lambda>p. 0)) (5, 3) = 0"
    unfolding c(2) by (simp add: cavity7_size stencil_pass_wave)
  have 5: "fst (Compute_Artificial_Viscosity cavity7 wave (\<lambda>p. 0, \<lambda>p. 0)) (3, 1) = - 1296 / 5"
    unfolding c(2) by (simp add: cavity7_size stencil_pass_wave)
  have 6: "snd (cav_stencil_pass cavity7 wave (\<lambda>p. 0, \<lambda>p. 0)) (1, 3) = 0"
    "snd (cav_stencil_pass cavity7 wave (\<lambda>p. 0, \<lambda>p. 0)) (3, 1) = 0"
    by (simp_all add: cav_stencil_pass_cell)
  from 1 2 3 4 5 6 show ?thesis
    unfolding vy stencil_pass_wave by simp
qed

section \<open>Point-Jacobi iteration\<close>

text \<open>
  Each node of the single pass is updated from \<^verbatim>\<open>uold\<close> and from the velocity that the
  node has in \<^verbatim>\<open>u\<close> before the pass.
\<close>

lemma point_Jacobi_cell:
  "point_Jacobi cfg u uold viscx viscy dt s (i, j, k) =
     (if 1 \<le> i \<and> i < imax cfg - 1 \<and> 1 \<le> j \<and> j < jmax cfg - 1
      then point_Jacobi_body cfg uold viscx viscy dt s i j u (i, j, k) else u (i, j, k))"
proof -
  let ?xs = "List.product [1..<imax cfg - 1] [1..<jmax cfg - 1]"
  let ?body = "\<lambda>(i, j). point_Jacobi_body cfg uold viscx viscy dt s i j"
  let ?row = "\<lambda>(i, j, k::nat). (i::nat, j::nat)"
  have d: "distinct ?xs" by (simp add: distinct_product)
  have "fold ?body ?xs u (i, j, k) =
      (if ?row (i, j, k) \<in> set ?xs then ?body (?row (i, j, k)) u (i, j, k) else u (i, j, k))"
  proof (rule fold_row_local [where row = ?row, OF _ _ d])
    fix x :: "nat \<times> nat" and w :: Array3 and p :: "nat \<times> nat \<times> nat"
    assume "?row p \<noteq> x"
    then show "?body x w p = w p"
      by (cases x; cases p) (auto simp: point_Jacobi_body_def Let_def)
  next
    fix x :: "nat \<times> nat" and w w' :: Array3 and p :: "nat \<times> nat \<times> nat"
    assume a: "\<And>q. ?row q = x \<Longrightarrow> w q = w' q" and "?row p = x"
    obtain i' j' where x: "x = (i', j')" by (cases x)
    have w: "w (i', j', k') = w' (i', j', k')" for k'
      by (rule a) (simp add: x)
    then have "point_Jacobi_beta2 cfg w i' j' = point_Jacobi_beta2 cfg w' i' j'"
      by (simp add: point_Jacobi_beta2_def)
    then show "?body x w p = ?body x w' p"
      using \<open>?row p = x\<close> by (cases p) (auto simp: x point_Jacobi_body_def Let_def w)
  qed
  then show ?thesis
    unfolding point_Jacobi_def fold_nested_product by auto
qed


lemma cavity5_size:
  "4 \<le> imax cavity5" "4 \<le> jmax cavity5" "imax cavity5 = 5" "jmax cavity5 = 5"
  "dx cavity5 = 1 / 80" "dy cavity5 = 1 / 80" "0 < imax cavity5" "0 < jmax cavity5"
  by (simp_all add: cavity5_def shipped_def dx_def dy_def)

lemma shear_viscosity:
  "fst (Compute_Artificial_Viscosity cavity5 shear (\<lambda>p. 0, \<lambda>p. 0)) (2, 2) = 0"
  "snd (Compute_Artificial_Viscosity cavity5 shear (\<lambda>p. 0, \<lambda>p. 0)) (2, 2) = 0"
  by (simp_all add: Compute_Artificial_Viscosity_cell [OF cavity5_size(1,2)] cav_stencil_pass_cell
      cavity5_size cav_stencil_body_def Let_def shear_def)

lemma PJ_iteration_center:
  "fst (PJ_iteration (bndry cavity5) cavity5 shear w (\<lambda>p. 0) (\<lambda>p. 0) (\<lambda>p. 0) (\<lambda>p. 1)) (2, 2, 0) =
     - (point_Jacobi_beta2 cavity5 w 2 2 * 80)"
proof -
  obtain vx vy where v: "Compute_Artificial_Viscosity cavity5 shear (\<lambda>p. 0, \<lambda>p. 0) = (vx, vy)"
    by (cases "Compute_Artificial_Viscosity cavity5 shear (\<lambda>p. 0, \<lambda>p. 0)")
  have z: "vx (2, 2) = 0" "vy (2, 2) = 0"
    using shear_viscosity unfolding v by simp_all
  have nw: "\<not> wall_cell cavity5 (2, 2, 0)"
    by (simp add: wall_cell_def cavity5_size)
  have "fst (PJ_iteration (bndry cavity5) cavity5 shear w (\<lambda>p. 0) (\<lambda>p. 0) (\<lambda>p. 0) (\<lambda>p. 1)) (2, 2, 0) =
      point_Jacobi cavity5 w shear vx vy (\<lambda>p. 1) (\<lambda>p. 0) (2, 2, 0)"
    unfolding PJ_iteration_def swapData_def
    by (simp add: v bndry_frame [OF cavity5_size(7,8) nw])
  also have "\<dots> = point_Jacobi_body cavity5 shear vx vy (\<lambda>p. 1) (\<lambda>p. 0) 2 2 w (2, 2, 0)"
    by (simp add: point_Jacobi_cell cavity5_size)
  also have "\<dots> = - (point_Jacobi_beta2 cavity5 w 2 2 * 80)"
    by (simp add: point_Jacobi_body_def Let_def z cavity5_size shear_def)
       (simp add: cavity5_def shipped_def)
  finally show ?thesis .
qed


lemma PJ_iteration_uold:
  "fst (snd (PJ_iteration set_boundary_conditions cfg u uold src viscx viscy dt)) = u"
  by (simp add: PJ_iteration_def swapData_def Let_def split: prod.splits)

text \<open>
  C2, run on the 5 by 5 grid with the shipped constants. The current field has
  x-velocity \<open>i\<close> and is otherwise 0, so that after the swap \<^verbatim>\<open>uold\<close> has velocity
  \<open>(2, 0)\<close> at the centre and the continuity residual there is 80; the time step is 1
  and source and damping are 0. With \<open>\<beta>\<^sup>2\<close> taken from \<^verbatim>\<open>uold\<close> the new centre pressure
  would be \<open>-320\<close> whatever the other array holds. The code gives \<open>-8\<close> when the array
  being written is at rest and \<open>-80\<close> when it has x-velocity 1 at the centre.
\<close>

theorem PJ_iteration_reads_written_array:
  "fst (PJ_iteration (bndry cavity5) cavity5 shear (\<lambda>p. 0) (\<lambda>p. 0) (\<lambda>p. 0) (\<lambda>p. 0) (\<lambda>p. 1))
     (2, 2, 0) = - 8 \<and>
   fst (PJ_iteration (bndry cavity5) cavity5 shear bump (\<lambda>p. 0) (\<lambda>p. 0) (\<lambda>p. 0) (\<lambda>p. 1))
     (2, 2, 0) = - 80"
  unfolding PJ_iteration_center
  by (simp add: point_Jacobi_beta2_def pow2_def bump_def vel2ref_def cavity5_def shipped_def)

section \<open>Preconditioning parameter\<close>

text \<open>
  When the lid velocity is 1, as shipped, \<open>rkappa * uinf\<close> and \<open>rkappa * uinf\<^sup>2\<close> are the
  same number and every routine agrees with the specification's formula.
\<close>

lemma beta2_unit_lid:
  assumes "uinf cfg = 1"
  shows "compute_time_step_beta2 cfg u i j = beta2_spec cfg u i j"
    and "SGS_beta2 cfg u i j = beta2_spec cfg u i j"
    and "convergence_beta2 cfg u i j = beta2_spec cfg u i j"
    and "point_Jacobi_beta2 cfg u i j = beta2_spec cfg u i j"
  using assms
  by (simp_all add: compute_time_step_beta2_def SGS_beta2_def convergence_beta2_def
      point_Jacobi_beta2_def beta2_spec_def vel2ref_def pow2_def power2_eq_square Let_def)

text \<open>
  C1, run with lid velocity 2 and the other constants as shipped, at a node at rest: the
  time-step estimator, the SGS sweeps and the convergence monitor use
  \<open>rkappa * uinf = 1/5\<close>, the Point-Jacobi sweep and the specification
  \<open>rkappa * uinf\<^sup>2 = 2/5\<close>.
\<close>

theorem beta2_lid_velocity_two:
  "compute_time_step_beta2 lid2 (\<lambda>p. 0) 1 1 = 1 / 5 \<and>
   SGS_beta2 lid2 (\<lambda>p. 0) 1 1 = 1 / 5 \<and>
   convergence_beta2 lid2 (\<lambda>p. 0) 1 1 = 1 / 5 \<and>
   point_Jacobi_beta2 lid2 (\<lambda>p. 0) 1 1 = 2 / 5 \<and>
   beta2_spec lid2 (\<lambda>p. 0) 1 1 = 2 / 5"
  by (simp add: compute_time_step_beta2_def SGS_beta2_def convergence_beta2_def
      point_Jacobi_beta2_def beta2_spec_def vel2ref_def pow2_def Let_def lid2_def shipped_def)

section \<open>Convergence test on special values\<close>

lemma fmaxd_PInf: "fmaxd PInf y = PInf" "fmaxd x PInf = PInf"
  by (cases y; simp) (cases x; simp)

lemma fmaxd_NaN: "fmaxd NaN y = y" "fmaxd x NaN = x"
  by simp (cases x; simp)

lemma divd_PInf: "\<not> is_negative l \<Longrightarrow> divd PInf l = PInf \<or> divd PInf l = NaN"
  by (cases l) auto

lemma lessd_special: "\<not> lessd PInf y" "\<not> lessd NaN y"
  by (cases y; simp)+


text \<open>
  C9, as the code has it. For a normalising norm that is not negative: when all three
  residual norms are NaN, or when one of them is \<open>+Inf\<close>, the test \<^verbatim>\<open>conv<toler\<close> is false
  and the pass does not take the converged exit; the monitor returns nothing that tells
  such a pass from a pass that has not converged. When only some of the norms are NaN,
  \<^verbatim>\<open>fmax\<close> drops them and the test is the one of the remaining norms.
\<close>

theorem converged_exit_special_values:
  assumes "\<not> is_negative l"
  shows "\<not> converged_exit NaN NaN NaN l tol \<and>
    (r0 = PInf \<or> r1 = PInf \<or> r2 = PInf \<longrightarrow> \<not> converged_exit r0 r1 r2 l tol) \<and>
    converged_exit NaN r1 r2 l tol = lessd (divd (fmaxd r1 r2) l) tol \<and>
    converged_exit r0 NaN r2 l tol = lessd (divd (fmaxd r0 r2) l) tol \<and>
    converged_exit r0 r1 NaN l tol = lessd (divd (fmaxd r0 r1) l) tol"
proof -
  have inf: "\<not> lessd (divd PInf l) tol"
    using divd_PInf [OF assms] by (auto simp: lessd_special)
  have "fmaxd r0 (fmaxd r1 r2) = PInf" if "r0 = PInf \<or> r1 = PInf \<or> r2 = PInf"
    using that by (auto simp: fmaxd_PInf)
  then have 2: "r0 = PInf \<or> r1 = PInf \<or> r2 = PInf \<longrightarrow> \<not> converged_exit r0 r1 r2 l tol"
    by (auto simp: converged_exit_def conv_ratio_def inf)
  show ?thesis
    using 2 by (simp add: converged_exit_def conv_ratio_def fmaxd_NaN lessd_special)
qed

theorem converged_exit_special_values_witness:
  "\<not> converged_exit NaN NaN NaN (Fin (1 / 251)) (Fin (toler shipped)) \<and>
   \<not> converged_exit (Fin 0) PInf NaN (Fin (1 / 251)) (Fin (toler shipped)) \<and>
   converged_exit NaN (Fin 2) (Fin 3) (Fin (1 / 251)) (Fin (toler shipped)) =
     lessd (divd (fmaxd (Fin 2) (Fin 3)) (Fin (1 / 251))) (Fin (toler shipped))"
  using converged_exit_special_values [of "Fin (1 / 251)" "Fin (toler shipped)" "Fin 0" PInf NaN]
    converged_exit_special_values [of "Fin (1 / 251)" "Fin (toler shipped)" NaN "Fin 2" "Fin 3"]
  by simp

text \<open>
  C9 as stated fails: with the continuity norm NaN, both momentum norms 0, the
  normalising norm \<open>1/251\<close> of a fresh run on the shipped grid and the shipped tolerance,
  the ratio is 0 and the converged exit is taken.
\<close>

theorem converged_exit_counterexample:
  "converged_exit NaN (Fin 0) (Fin 0) (Fin (1 / 251)) (Fin (toler shipped))"
  by (simp add: converged_exit_def conv_ratio_def shipped_def)

end
